theory Spec2Isabelle
  imports Complex_Main "HOL-Library.Product_Lexorder"
begin

section \<open>Python values and exceptions\<close>

text \<open>
  The service is a Python program (\<^verbatim>\<open>src/main.py\<close>). Its helper functions return
  \<^verbatim>\<open>None\<close>, an error dictionary or a result dictionary, and may raise. A raise is the
  \<open>Inl\<close> branch of a sum; the returned dictionaries are datatypes and records.
  Python \<^verbatim>\<open>float\<close> values are modelled by \<open>real\<close>, Python \<^verbatim>\<open>int\<close> by \<open>int\<close>,
  and \<^verbatim>\<open>str\<close> by \<open>string\<close> restricted to ASCII.
\<close>

datatype py_exn = ValueError | ZeroDivisionError | TypeError | KeyError | OverflowError

section \<open>Text helpers: \<^verbatim>\<open>str.split\<close>, \<^verbatim>\<open>int\<close>, zero padding\<close>

text \<open>\<^verbatim>\<open>s.split(sep)\<close> for a one-character separator: every occurrence cuts, empty pieces are kept.\<close>

fun split_on :: "char \<Rightarrow> string \<Rightarrow> string list" where
  "split_on sep [] = [[]]"
| "split_on sep (c # cs) =
     (if c = sep then [] # split_on sep cs
      else (case split_on sep cs of [] \<Rightarrow> [[c]] | p # ps \<Rightarrow> (c # p) # ps))"

text \<open>A decimal digit is recognised by its character code, 48 to 57.\<close>

definition digit_val :: "char \<Rightarrow> int option" where
  "digit_val c =
     (let n = (of_char c :: nat) in if 48 \<le> n \<and> n \<le> 57 then Some (int n - 48) else None)"

text \<open>The ASCII characters that \<^verbatim>\<open>int()\<close> skips at both ends of its argument.\<close>

definition is_space :: "char \<Rightarrow> bool" where
  "is_space c \<longleftrightarrow>
     c \<in> {CHR '' '', CHR 0x09, CHR 0x0A, CHR 0x0B, CHR 0x0C, CHR 0x0D,
          CHR 0x1C, CHR 0x1D, CHR 0x1E, CHR 0x1F}"

definition strip :: "string \<Rightarrow> string" where
  "strip s = rev (dropWhile is_space (rev (dropWhile is_space s)))"

text \<open>
  The digits after the first one: a digit, or one underscore followed by a digit
  (\<^verbatim>\<open>int("1_000") == 1000\<close>), accumulated in base ten.
\<close>

fun py_digits :: "string \<Rightarrow> int \<Rightarrow> int option" where
  "py_digits [] acc = Some acc"
| "py_digits (c # cs) acc =
     (if c = CHR ''_'' then
        (case cs of
           [] \<Rightarrow> None
         | d # ds \<Rightarrow> (case digit_val d of None \<Rightarrow> None | Some v \<Rightarrow> py_digits ds (10 * acc + v)))
      else (case digit_val c of None \<Rightarrow> None | Some v \<Rightarrow> py_digits cs (10 * acc + v)))"

definition py_nat :: "string \<Rightarrow> int option" where
  "py_nat s =
     (case s of
        [] \<Rightarrow> None
      | c # cs \<Rightarrow> (case digit_val c of None \<Rightarrow> None | Some v \<Rightarrow> py_digits cs v))"

text \<open>\<^verbatim>\<open>int(s)\<close> in base ten; \<open>None\<close> stands for the \<^verbatim>\<open>ValueError\<close> it raises.\<close>

definition py_int :: "string \<Rightarrow> int option" where
  "py_int s =
     (case strip s of
        [] \<Rightarrow> None
      | c # cs \<Rightarrow>
          if c = CHR ''-'' then map_option uminus (py_nat cs)
          else if c = CHR ''+'' then py_nat cs
          else py_nat (c # cs))"

definition digit_char :: "int \<Rightarrow> char" where
  "digit_char n = ''0123456789'' ! nat n"

text \<open>\<^verbatim>\<open>%d\<close> and \<^verbatim>\<open>%m\<close> of \<^verbatim>\<open>strftime\<close> (two digits), and \<^verbatim>\<open>%Y\<close> (four digits).\<close>

definition pad2 :: "int \<Rightarrow> string" where
  "pad2 n = [digit_char (n div 10 mod 10), digit_char (n mod 10)]"

definition pad4 :: "int \<Rightarrow> string" where
  "pad4 n = [digit_char (n div 1000 mod 10), digit_char (n div 100 mod 10),
             digit_char (n div 10 mod 10), digit_char (n mod 10)]"

text \<open>\<^verbatim>\<open>str(n)\<close> for an integer, used inside the f-strings of the messages.\<close>

function nat_digits :: "nat \<Rightarrow> string" where
  "nat_digits n = (if n < 10 then [digit_char (int n)]
                   else nat_digits (n div 10) @ [digit_char (int (n mod 10))])"
  by pat_completeness auto
termination
  by (relation "measure id") auto

definition str_int :: "int \<Rightarrow> string" where
  "str_int i = (if i < 0 then CHR ''-'' # nat_digits (nat (- i)) else nat_digits (nat i))"

section \<open>Calendar dates: \<^verbatim>\<open>datetime\<close>\<close>

text \<open>
  A \<^verbatim>\<open>datetime\<close> is its fields (year, month, day, hour, minute, second, microsecond).
  Python compares two of them field by field in this order, which is the lexicographic
  order of the tuple. The day count between two dates goes through the proleptic
  Gregorian ordinal, as \<^verbatim>\<open>datetime.toordinal\<close> computes it.
\<close>

type_synonym datetime = "int \<times> int \<times> int \<times> int \<times> int \<times> int \<times> int"

definition year_of :: "datetime \<Rightarrow> int" where
  "year_of dt = fst dt"

definition month_of :: "datetime \<Rightarrow> int" where
  "month_of dt = fst (snd dt)"

definition day_of :: "datetime \<Rightarrow> int" where
  "day_of dt = fst (snd (snd dt))"

definition time_of :: "datetime \<Rightarrow> int \<times> int \<times> int \<times> int" where
  "time_of dt = snd (snd (snd dt))"

text \<open>\<^verbatim>\<open>dt.date()\<close>: the calendar day without the time of day.\<close>

definition date_of :: "datetime \<Rightarrow> int \<times> int \<times> int" where
  "date_of dt = (year_of dt, month_of dt, day_of dt)"

definition is_leap :: "int \<Rightarrow> bool" where
  "is_leap y \<longleftrightarrow> y mod 4 = 0 \<and> (y mod 100 \<noteq> 0 \<or> y mod 400 = 0)"

definition DAYS_IN_MONTH :: "int list" where
  "DAYS_IN_MONTH = [-1, 31, 28, 31, 30, 31, 30, 31, 31, 30, 31, 30, 31]"

definition DAYS_BEFORE_MONTH :: "int list" where
  "DAYS_BEFORE_MONTH = [-1, 0, 31, 59, 90, 120, 151, 181, 212, 243, 273, 304, 334]"

definition days_in_month :: "int \<Rightarrow> int \<Rightarrow> int" where
  "days_in_month y m = (if m = 2 \<and> is_leap y then 29 else DAYS_IN_MONTH ! nat m)"

definition days_before_month :: "int \<Rightarrow> int \<Rightarrow> int" where
  "days_before_month y m =
     DAYS_BEFORE_MONTH ! nat m + (if m > 2 \<and> is_leap y then 1 else 0)"

definition days_before_year :: "int \<Rightarrow> int" where
  "days_before_year y = (y - 1) * 365 + (y - 1) div 4 - (y - 1) div 100 + (y - 1) div 400"

definition ymd2ord :: "int \<Rightarrow> int \<Rightarrow> int \<Rightarrow> int" where
  "ymd2ord y m d = days_before_year y + days_before_month y m + d"

definition toordinal :: "datetime \<Rightarrow> int" where
  "toordinal dt = ymd2ord (year_of dt) (month_of dt) (day_of dt)"

text \<open>The range checks of the \<^verbatim>\<open>datetime(year, month, day)\<close> constructor.\<close>

definition valid_date :: "int \<Rightarrow> int \<Rightarrow> int \<Rightarrow> bool" where
  "valid_date y m d \<longleftrightarrow>
     1 \<le> y \<and> y \<le> 9999 \<and> 1 \<le> m \<and> m \<le> 12 \<and> 1 \<le> d \<and> d \<le> days_in_month y m"

definition mk_datetime :: "int \<Rightarrow> int \<Rightarrow> int \<Rightarrow> py_exn + datetime" where
  "mk_datetime y m d =
     (if valid_date y m d then Inr (y, m, d, 0, 0, 0, 0) else Inl ValueError)"

text \<open>
  \<^verbatim>\<open>parse_date\<close> (lines 250-256): split at the dashes into exactly day, month, year,
  convert each with \<^verbatim>\<open>int\<close>, build the \<^verbatim>\<open>datetime\<close>; whatever fails is re-raised as
  \<^verbatim>\<open>ValueError\<close>. The conversions run in the order year, month, day, all with the same
  outcome on failure.
\<close>

definition parse_date :: "string \<Rightarrow> py_exn + datetime" where
  "parse_date date_str =
     (case split_on CHR ''-'' date_str of
        [day, month, year] \<Rightarrow>
          (case py_int year of
             None \<Rightarrow> Inl ValueError
           | Some y \<Rightarrow>
               (case py_int month of
                  None \<Rightarrow> Inl ValueError
                | Some m \<Rightarrow>
                    (case py_int day of
                       None \<Rightarrow> Inl ValueError
                     | Some d \<Rightarrow> mk_datetime y m d)))
      | _ \<Rightarrow> Inl ValueError)"

text \<open>\<^verbatim>\<open>format_date\<close> (lines 258-260): \<^verbatim>\<open>dt.strftime("%d-%m-%Y")\<close>.\<close>

definition format_date :: "datetime \<Rightarrow> string" where
  "format_date dt = pad2 (day_of dt) @ ''-'' @ pad2 (month_of dt) @ ''-'' @ pad4 (year_of dt)"

section \<open>Numbers: \<^verbatim>\<open>round\<close> and \<^verbatim>\<open>pow\<close>\<close>

text \<open>
  \<^verbatim>\<open>round(x, n)\<close> rounds to the nearest multiple of \<open>10^-n\<close>, a tie going to the even
  neighbour. The model applies that rule to the real number itself.
\<close>

definition round_half_even :: "real \<Rightarrow> int" where
  "round_half_even x =
     (let f = \<lfloor>x\<rfloor>; r = x - of_int f
      in if r < 1 / 2 then f else if r > 1 / 2 then f + 1 else if even f then f else f + 1)"

definition py_round :: "real \<Rightarrow> nat \<Rightarrow> real" where
  "py_round x n = of_int (round_half_even (x * 10 ^ n)) / 10 ^ n"

text \<open>
  \<^verbatim>\<open>pow(x, y)\<close> on floats. A negative base with a fractional exponent gives a
  \<^verbatim>\<open>complex\<close>, on which the later \<^verbatim>\<open>round(xirr, 2)\<close> raises \<^verbatim>\<open>TypeError\<close>; the model
  raises it here, nothing else happening in between.
\<close>

definition py_pow :: "real \<Rightarrow> real \<Rightarrow> py_exn + real" where
  "py_pow x y =
     (if y = 0 then Inr 1
      else if x > 0 then Inr (x powr y)
      else if x = 0 then (if y > 0 then Inr 0 else Inl ZeroDivisionError)
      else if y = of_int \<lfloor>y\<rfloor> then Inr (x powi \<lfloor>y\<rfloor>)
      else Inl TypeError)"

section \<open>The NAV store\<close>

text \<open>
  \<^verbatim>\<open>NAV_DATA_MAP\<close> (lines 33-49) maps a scheme code to its name, fund house and list of
  observations. An observation keeps its date as the text of the data file; its
  \<open>nav\<close> is the number that \<^verbatim>\<open>float(entry['nav'])\<close> yields.
\<close>

record nav_entry =
  date :: string
  nav :: real

record nav_scheme =
  name :: string
  fund_house :: string
  data :: "nav_entry list"

type_synonym nav_data_map = "int \<rightharpoonup> nav_scheme"

text \<open>What \<^verbatim>\<open>get_nav_on_date\<close> returns: \<^verbatim>\<open>None\<close>, the error dictionary, or a NAV point.\<close>

datatype nav_lookup =
  NotFound
| BeforeFundStart (error_fund_start_date: string) (error_message: string)
| NavPoint (nav_value: real) (nav_date: string) (exact_match: bool)

text \<open>
  \<^verbatim>\<open>sorted(xs)\<close> is \<open>sort\<close>. \<^verbatim>\<open>sorted(xs, key=k, reverse=True)\<close> and
  \<^verbatim>\<open>xs.sort(key=k, reverse=True)\<close> sort downwards and keep elements of equal key in their
  original order.
\<close>

definition py_sorted_reverse :: "('a \<Rightarrow> 'k::linorder) \<Rightarrow> 'a list \<Rightarrow> 'a list" where
  "py_sorted_reverse key xs = rev (sort_key key (rev xs))"

text \<open>The list comprehension of lines 274-277: every entry's date is parsed.\<close>

fun parse_dates :: "nav_entry list \<Rightarrow> py_exn + datetime list" where
  "parse_dates [] = Inr []"
| "parse_dates (entry # entries) =
     (case parse_date (date entry) of
        Inl e \<Rightarrow> Inl e
      | Inr d \<Rightarrow> (case parse_dates entries of Inl e \<Rightarrow> Inl e | Inr ds \<Rightarrow> Inr (d # ds)))"

text \<open>The loop of lines 294-301: the first entry whose calendar day is the target's.\<close>

fun find_exact :: "nav_entry list \<Rightarrow> datetime \<Rightarrow> py_exn + nav_lookup option" where
  "find_exact [] target_date = Inr None"
| "find_exact (entry # entries) target_date =
     (case parse_date (date entry) of
        Inl e \<Rightarrow> Inl e
      | Inr entry_date \<Rightarrow>
          if date_of entry_date = date_of target_date
          then Inr (Some (NavPoint (nav entry) (date entry) True))
          else find_exact entries target_date)"

text \<open>The loop of lines 304-312: the entries dated on or before the target, in list order.\<close>

fun previous_navs :: "nav_entry list \<Rightarrow> datetime \<Rightarrow> py_exn + (real \<times> string \<times> datetime) list" where
  "previous_navs [] target_date = Inr []"
| "previous_navs (entry # entries) target_date =
     (case parse_date (date entry) of
        Inl e \<Rightarrow> Inl e
      | Inr entry_date \<Rightarrow>
          (case previous_navs entries target_date of
             Inl e \<Rightarrow> Inl e
           | Inr ps \<Rightarrow>
               Inr (if entry_date \<le> target_date
                    then (nav entry, date entry, entry_date) # ps else ps)))"

definition before_start_message :: "datetime \<Rightarrow> string" where
  "before_start_message fund_start =
     ''Fund started on '' @ format_date fund_start @ '', which is after the investment date''"

text \<open>\<^verbatim>\<open>get_nav_on_date\<close> (lines 262-323).\<close>

definition get_nav_on_date :: "nav_data_map \<Rightarrow> int \<Rightarrow> string \<Rightarrow> py_exn + nav_lookup" where
  "get_nav_on_date NAV_DATA_MAP scheme_code investment_date =
     (case NAV_DATA_MAP scheme_code of
        None \<Rightarrow> Inr NotFound
      | Some nav_scheme \<Rightarrow>
          (case parse_date investment_date of
             Inl e \<Rightarrow> Inl e
           | Inr target_date \<Rightarrow>
               (case parse_dates (data nav_scheme) of
                  Inl e \<Rightarrow> Inl e
                | Inr dates \<Rightarrow>
                    (case sort dates of
                       [] \<Rightarrow> Inr NotFound
                     | fund_start_date # _ \<Rightarrow>
                         if target_date < fund_start_date
                         then Inr (BeforeFundStart (format_date fund_start_date)
                                     (before_start_message fund_start_date))
                         else
                           (case find_exact (data nav_scheme) target_date of
                              Inl e \<Rightarrow> Inl e
                            | Inr (Some point) \<Rightarrow> Inr point
                            | Inr None \<Rightarrow>
                                (case previous_navs (data nav_scheme) target_date of
                                   Inl e \<Rightarrow> Inl e
                                 | Inr ps \<Rightarrow>
                                     (case py_sorted_reverse (\<lambda>x. snd (snd x)) ps of
                                        [] \<Rightarrow> Inr NotFound
                                      | nearest # _ \<Rightarrow>
                                          Inr (NavPoint (fst nearest) (fst (snd nearest)) False))))))))"

text \<open>The sort key of line 338, computed for every entry.\<close>

fun with_date_keys :: "nav_entry list \<Rightarrow> py_exn + (nav_entry \<times> datetime) list" where
  "with_date_keys [] = Inr []"
| "with_date_keys (entry # entries) =
     (case parse_date (date entry) of
        Inl e \<Rightarrow> Inl e
      | Inr d \<Rightarrow>
          (case with_date_keys entries of Inl e \<Rightarrow> Inl e | Inr ks \<Rightarrow> Inr ((entry, d) # ks)))"

text \<open>\<^verbatim>\<open>get_current_nav\<close> (lines 325-345): the NAV and date text of the latest entry.\<close>

definition get_current_nav :: "nav_data_map \<Rightarrow> int \<Rightarrow> py_exn + (real \<times> string) option" where
  "get_current_nav NAV_DATA_MAP scheme_code =
     (case NAV_DATA_MAP scheme_code of
        None \<Rightarrow> Inr None
      | Some nav_scheme \<Rightarrow>
          if data nav_scheme = [] then Inr None
          else
            (case with_date_keys (data nav_scheme) of
               Inl e \<Rightarrow> Inl e
             | Inr keyed \<Rightarrow>
                 (case py_sorted_reverse snd keyed of
                    [] \<Rightarrow> Inl KeyError
                  | latest # _ \<Rightarrow> Inr (Some (nav (fst latest), date (fst latest))))))"

section \<open>The return calculator\<close>

record investment_info =
  inv_amount :: real
  inv_date :: string
  inv_purchase_nav :: real
  inv_purchase_date :: string
  inv_exact_date_match :: bool

record current_info =
  cur_nav :: real
  cur_date :: string
  cur_value :: real

record returns_info =
  ret_absolute :: real
  ret_percentage :: real
  ret_xirr :: real

record metrics_info =
  met_units :: real
  met_duration_days :: int
  met_duration_years :: real

record investment_result =
  res_scheme_code :: int
  res_scheme_name :: string
  res_fund_house :: string
  res_investment :: investment_info
  res_current :: current_info
  res_returns :: returns_info
  res_metrics :: metrics_info

text \<open>
  What \<^verbatim>\<open>calculate_returns\<close> returns: its own error dictionary (a message only), the
  resolver's \<^verbatim>\<open>BEFORE_FUND_START\<close> dictionary passed on as it is, or the result.
\<close>

datatype returns_result =
  ErrorMessage string
| ErrorBeforeStart string string
| Returns investment_result

definition nav_not_available :: "int \<Rightarrow> string \<Rightarrow> string" where
  "nav_not_available code inv_date_text =
     ''NAV data not available for scheme '' @ str_int code @ '' on '' @ inv_date_text"

definition current_nav_not_available :: "int \<Rightarrow> string" where
  "current_nav_not_available code = ''Current NAV data not available for scheme '' @ str_int code"

text \<open>Lines 398-407: the annualised figure that the source calls \<^verbatim>\<open>xirr\<close>.\<close>

definition annualized :: "real \<Rightarrow> real \<Rightarrow> int \<Rightarrow> py_exn + real" where
  "annualized current_value investment_amount days =
     (let years = real_of_int days / 365.25
      in if years > 0
         then (case py_pow (current_value / investment_amount) (1 / years) of
                 Inl e \<Rightarrow> Inl e
               | Inr p \<Rightarrow> Inr ((p - 1) * 100))
         else Inr 0)"

text \<open>
  The dictionary returned at lines 409-436, with the quantities of lines 388-402 it is
  built from.
\<close>

definition returns_dict ::
  "int \<Rightarrow> nav_scheme \<Rightarrow> real \<Rightarrow> string \<Rightarrow> real \<Rightarrow> string \<Rightarrow> bool \<Rightarrow> real \<Rightarrow> string \<Rightarrow> int \<Rightarrow> real
     \<Rightarrow> investment_result" where
  "returns_dict scheme_code nav_scheme investment_amount investment_date
       p_nav p_date exact c_nav c_date days x =
     (let units = investment_amount / p_nav;
          current_value = units * c_nav;
          absolute_returns = current_value - investment_amount;
          return_percentage = (absolute_returns / investment_amount) * 100;
          years = real_of_int days / 365.25
      in \<lparr>res_scheme_code = scheme_code,
          res_scheme_name = name nav_scheme,
          res_fund_house = fund_house nav_scheme,
          res_investment =
            \<lparr>inv_amount = py_round investment_amount 2,
             inv_date = investment_date,
             inv_purchase_nav = py_round p_nav 4,
             inv_purchase_date = p_date,
             inv_exact_date_match = exact\<rparr>,
          res_current =
            \<lparr>cur_nav = py_round c_nav 4,
             cur_date = c_date,
             cur_value = py_round current_value 2\<rparr>,
          res_returns =
            \<lparr>ret_absolute = py_round absolute_returns 2,
             ret_percentage = py_round return_percentage 2,
             ret_xirr = py_round x 2\<rparr>,
          res_metrics =
            \<lparr>met_units = py_round units 4,
             met_duration_days = days,
             met_duration_years = py_round years 2\<rparr>\<rparr>)"

text \<open>
  \<^verbatim>\<open>calculate_returns\<close> (lines 347-436). Both divisions raise on a zero divisor:
  \<^verbatim>\<open>investment_amount / purchase_nav\<close> and \<^verbatim>\<open>absolute_returns / investment_amount\<close>.
\<close>

definition calculate_returns ::
  "nav_data_map \<Rightarrow> int \<Rightarrow> real \<Rightarrow> string \<Rightarrow> py_exn + returns_result" where
  "calculate_returns NAV_DATA_MAP scheme_code investment_amount investment_date =
     (case get_nav_on_date NAV_DATA_MAP scheme_code investment_date of
        Inl e \<Rightarrow> Inl e
      | Inr purchase_nav_data \<Rightarrow>
     (case get_current_nav NAV_DATA_MAP scheme_code of
        Inl e \<Rightarrow> Inl e
      | Inr current_nav_data \<Rightarrow>
     (case purchase_nav_data of
        NotFound \<Rightarrow> Inr (ErrorMessage (nav_not_available scheme_code investment_date))
      | BeforeFundStart start msg \<Rightarrow> Inr (ErrorBeforeStart start msg)
      | NavPoint p_nav p_date exact \<Rightarrow>
     (case current_nav_data of
        None \<Rightarrow> Inr (ErrorMessage (current_nav_not_available scheme_code))
      | Some (c_nav, c_date) \<Rightarrow>
          if p_nav = 0 then Inl ZeroDivisionError
          else if investment_amount = 0 then Inl ZeroDivisionError
          else
     (case parse_date investment_date of
        Inl e \<Rightarrow> Inl e
      | Inr purchase_dt \<Rightarrow>
     (case parse_date c_date of
        Inl e \<Rightarrow> Inl e
      | Inr current_dt \<Rightarrow>
          let days = toordinal current_dt - toordinal purchase_dt
          in
     (case annualized (investment_amount / p_nav * c_nav) investment_amount days of
        Inl e \<Rightarrow> Inl e
      | Inr x \<Rightarrow>
     (case NAV_DATA_MAP scheme_code of
        None \<Rightarrow> Inl KeyError
      | Some nav_scheme \<Rightarrow>
          Inr (Returns
                 (returns_dict scheme_code nav_scheme investment_amount investment_date
                    p_nav p_date exact c_nav c_date days x))))))))))"

section \<open>The fund catalog\<close>

text \<open>
  \<^verbatim>\<open>FUNDS_DATA\<close> maps a fund's display name to its record; iteration follows insertion
  order, so the catalog is an association list. A field read with \<^verbatim>\<open>.get\<close> is an
  \<open>option\<close>, \<open>None\<close> when the key is absent. A fund without a \<^verbatim>\<open>metrics\<close> dictionary
  has the record in which every metric is absent and the reliability flag is false.
\<close>

datatype score_object = Score (total: real)

record fund_metrics =
  is_statistically_reliable :: bool
  cagr :: "real option"
  rolling_3y :: "real option"
  consistency_score :: "real option"
  sharpe :: "real option"
  max_drawdown :: "real option"
  sortino :: "real option"
  calmar_ratio :: "real option"
  gain_to_pain_ratio :: "real option"
  positive_months_pct :: "real option"
  ulcer_index :: "real option"
  fund_age_years :: "real option"
  data_quality :: "string option"

record fund_data =
  canonical_code :: "int option"
  fund_type :: "string option"
  riskometer :: "string option"
  main_category :: "string option"
  sub_category :: "string option"
  category_display :: "string option"
  category_emoji :: "string option"
  total_nav_records :: "int option"
  fund_metrics :: fund_metrics
  fund_score :: "score_object option"

type_synonym funds_data = "(string \<times> fund_data) list"

text \<open>Python truth of an optional number: present and not zero.\<close>

definition truthy :: "real option \<Rightarrow> bool" where
  "truthy v = (case v of None \<Rightarrow> False | Some x \<Rightarrow> x \<noteq> 0)"

definition num_or_zero :: "real option \<Rightarrow> real" where
  "num_or_zero v = (case v of None \<Rightarrow> 0 | Some x \<Rightarrow> x)"

text \<open>\<^verbatim>\<open>calculate_composite_score\<close> (lines 93-163).\<close>

definition calculate_composite_score :: "fund_metrics \<Rightarrow> int" where
  "calculate_composite_score m =
     (if \<not> is_statistically_reliable m then 0
      else
        let c = num_or_zero (cagr m);
            s1 = (if \<not> truthy (cagr m) then 0
                  else if c > 0.15 then 20 else if c > 0.12 then 15
                  else if c > 0.10 then 10 else if c > 0.08 then 5 else 0);
            r = num_or_zero (rolling_3y m);
            s2 = (if \<not> truthy (rolling_3y m) then 0
                  else if r > 0.15 then 10 else if r > 0.12 then 7
                  else if r > 0.10 then 5 else 0);
            k = num_or_zero (consistency_score m);
            s3 = (if \<not> truthy (consistency_score m) then 0
                  else if k > 70 then 10 else if k > 60 then 7
                  else if k > 50 then 5 else 0);
            sh = num_or_zero (sharpe m);
            s4 = (if \<not> truthy (sharpe m) then 0
                  else if sh > 2 then 15 else if sh > 1 then 10
                  else if sh > 0.5 then 5 else 0);
            dd = num_or_zero (max_drawdown m);
            s5 = (if \<not> truthy (max_drawdown m) then 0
                  else if dd > - 0.20 then 10 else if dd > - 0.30 then 5 else 0);
            so = num_or_zero (sortino m);
            s6 = (if \<not> truthy (sortino m) then 0
                  else if so > 2 then 5 else if so > 1 then 3 else 0);
            ca = num_or_zero (calmar_ratio m);
            s7 = (if \<not> truthy (calmar_ratio m) then 0
                  else if ca > 2 then 10 else if ca > 1 then 7
                  else if ca > 0.5 then 5 else 0);
            g = num_or_zero (gain_to_pain_ratio m);
            s8 = (if \<not> truthy (gain_to_pain_ratio m) then 0
                  else if g > 2 then 10 else if g > 1 then 5 else 0);
            pm = num_or_zero (positive_months_pct m);
            s9 = (if \<not> truthy (positive_months_pct m) then 0
                  else if pm > 65 then 5 else if pm > 55 then 3 else 0);
            u = num_or_zero (ulcer_index m);
            s10 = (if \<not> truthy (ulcer_index m) then 0
                   else if u < 5 then 5 else if u < 10 then 3 else 0)
        in min (s1 + s2 + s3 + s4 + s5 + s6 + s7 + s8 + s9 + s10) (100::int))"

text \<open>\<^verbatim>\<open>get_category_emoji\<close> (lines 64-74); the emoji are their UTF-8 bytes.\<close>

definition get_category_emoji :: "string \<Rightarrow> string" where
  "get_category_emoji main_cat =
     (if main_cat = ''Equity'' then [CHR 0xF0, CHR 0x9F, CHR 0x93, CHR 0x88]
      else if main_cat = ''Debt'' then [CHR 0xF0, CHR 0x9F, CHR 0x8F, CHR 0xA6]
      else if main_cat = ''Hybrid'' then [CHR 0xE2, CHR 0x9A, CHR 0x96, CHR 0xEF, CHR 0xB8, CHR 0x8F]
      else if main_cat = ''Income'' then [CHR 0xF0, CHR 0x9F, CHR 0x92, CHR 0xB0]
      else if main_cat = ''Solution Oriented'' then [CHR 0xF0, CHR 0x9F, CHR 0x8E, CHR 0xAF]
      else [CHR 0xF0, CHR 0x9F, CHR 0x93, CHR 0x8A])"

text \<open>\<^verbatim>\<open>str.lower\<close> on ASCII, and the substring test \<^verbatim>\<open>q in s\<close>.\<close>

definition lower_char :: "char \<Rightarrow> char" where
  "lower_char c =
     (let n = (of_char c :: nat) in if 65 \<le> n \<and> n \<le> 90 then char_of (n + 32) else c)"

definition py_lower :: "string \<Rightarrow> string" where
  "py_lower s = map lower_char s"

fun contains :: "string \<Rightarrow> string \<Rightarrow> bool" where
  "contains [] q = (q = [])"
| "contains (c # cs) q = (take (length q) (c # cs) = q \<or> contains cs q)"

text \<open>The slice \<^verbatim>\<open>xs[:n]\<close>; a negative \<open>n\<close> counts from the end.\<close>

definition py_slice_to :: "int \<Rightarrow> 'a list \<Rightarrow> 'a list" where
  "py_slice_to n xs = (if n \<ge> 0 then take (nat n) xs else take (nat (int (length xs) + n)) xs)"

subsection \<open>Fund search\<close>

record search_row =
  sr_name :: string
  sr_code :: "int option"
  sr_type :: "string option"
  sr_risk :: "string option"
  sr_category :: string
  sr_category_emoji :: string
  sr_main_category :: string
  sr_sub_category :: "string option"
  sr_cagr :: "real option"
  sr_fund_age :: "real option"
  sr_is_reliable :: bool
  sr_data_quality :: string
  sr_composite_score :: int
  sr_score :: "score_object option"
  sr_total_nav_records :: int

record search_filters =
  flt_reliable_only :: bool
  flt_min_age :: real
  flt_min_cagr :: real

record search_response =
  resp_query :: string
  resp_filters :: "search_filters option"
  resp_results :: "search_row list"

text \<open>
  \<^verbatim>\<open>data.get("main_category", "Other")\<close> and the two defaults that depend on it
  (lines 518-521).
\<close>

definition main_cat_of :: "fund_data \<Rightarrow> string" where
  "main_cat_of d = (case main_category d of None \<Rightarrow> ''Other'' | Some c \<Rightarrow> c)"

definition cat_display_of :: "fund_data \<Rightarrow> string" where
  "cat_display_of d = (case category_display d of None \<Rightarrow> main_cat_of d | Some c \<Rightarrow> c)"

definition cat_emoji_of :: "fund_data \<Rightarrow> string" where
  "cat_emoji_of d =
     (case category_emoji d of None \<Rightarrow> get_category_emoji (main_cat_of d) | Some e \<Rightarrow> e)"

text \<open>The filter of lines 492-509: does the loop keep this fund?\<close>

definition search_keeps :: "string \<Rightarrow> bool \<Rightarrow> real \<Rightarrow> real \<Rightarrow> string \<times> fund_data \<Rightarrow> bool" where
  "search_keeps query reliable_only min_age min_cagr nd =
     (let m = fund_metrics (snd nd)
      in contains (py_lower (fst nd)) query
         \<and> \<not> (reliable_only \<and> \<not> is_statistically_reliable m)
         \<and> \<not> (min_age > 0 \<and> (\<not> truthy (fund_age_years m) \<or> num_or_zero (fund_age_years m) < min_age))
         \<and> \<not> (min_cagr > 0 \<and> (\<not> truthy (cagr m) \<or> num_or_zero (cagr m) < min_cagr)))"

text \<open>The row appended at lines 523-540.\<close>

definition search_row_of :: "string \<times> fund_data \<Rightarrow> search_row" where
  "search_row_of nd =
     (let d = snd nd; m = fund_metrics d
      in \<lparr>sr_name = fst nd,
          sr_code = canonical_code d,
          sr_type = fund_type d,
          sr_risk = riskometer d,
          sr_category = cat_display_of d,
          sr_category_emoji = cat_emoji_of d,
          sr_main_category = main_cat_of d,
          sr_sub_category = sub_category d,
          sr_cagr = (if truthy (cagr m) then Some (py_round (num_or_zero (cagr m) * 100) 2) else None),
          sr_fund_age = (if truthy (fund_age_years m)
                         then Some (py_round (num_or_zero (fund_age_years m)) 1) else None),
          sr_is_reliable = is_statistically_reliable m,
          sr_data_quality = (case data_quality m of None \<Rightarrow> ''unknown'' | Some q \<Rightarrow> q),
          sr_composite_score = calculate_composite_score m,
          sr_score = fund_score d,
          sr_total_nav_records = (case total_nav_records d of None \<Rightarrow> 0 | Some n \<Rightarrow> n)\<rparr>)"

text \<open>
  The sort key of lines 544-547: the precomputed total when the row has a score
  object, else the composite score; then \<^verbatim>\<open>x["cagr"] or 0\<close>.
\<close>

definition search_key :: "search_row \<Rightarrow> real \<times> real" where
  "search_key x =
     ((case sr_score x of Some sc \<Rightarrow> total sc | None \<Rightarrow> real_of_int (sr_composite_score x)),
      num_or_zero (sr_cagr x))"

text \<open>\<^verbatim>\<open>search_funds\<close> (lines 469-559).\<close>

definition search_funds ::
  "funds_data \<Rightarrow> string \<Rightarrow> bool \<Rightarrow> real \<Rightarrow> real \<Rightarrow> search_response" where
  "search_funds FUNDS_DATA q reliable_only min_age min_cagr =
     (if length q < 2 then \<lparr>resp_query = q, resp_filters = None, resp_results = []\<rparr>
      else
        let query = py_lower q;
            results = map search_row_of
                        (filter (search_keeps query reliable_only min_age min_cagr) FUNDS_DATA);
            sorted_results = py_sorted_reverse search_key results
        in \<lparr>resp_query = q,
            resp_filters = Some \<lparr>flt_reliable_only = reliable_only,
                                 flt_min_age = min_age, flt_min_cagr = min_cagr\<rparr>,
            resp_results = take 20 sorted_results\<rparr>)"

subsection \<open>Full listing\<close>

text \<open>The rows of \<^verbatim>\<open>get_all_funds\<close> (lines 582-591) have no \<^verbatim>\<open>"score"\<close> key.\<close>

record summary_row =
  sm_name :: string
  sm_code :: "int option"
  sm_type :: "string option"
  sm_risk :: "string option"
  sm_cagr :: "real option"
  sm_fund_age :: real
  sm_is_reliable :: bool
  sm_composite_score :: int

record summary_response =
  sum_total :: nat
  sum_reliable_count :: nat
  sum_funds :: "summary_row list"

definition summary_row_of :: "string \<times> fund_data \<Rightarrow> summary_row" where
  "summary_row_of nd =
     (let d = snd nd; m = fund_metrics d
      in \<lparr>sm_name = fst nd,
          sm_code = canonical_code d,
          sm_type = fund_type d,
          sm_risk = riskometer d,
          sm_cagr = (if truthy (cagr m) then Some (py_round (num_or_zero (cagr m) * 100) 2) else None),
          sm_fund_age = py_round (num_or_zero (fund_age_years m)) 1,
          sm_is_reliable = is_statistically_reliable m,
          sm_composite_score = calculate_composite_score m\<rparr>)"

text \<open>
  The sort key of line 595, \<^verbatim>\<open>x["score"]["total"] if x.get("score") else x["composite_score"]\<close>:
  \<^verbatim>\<open>x.get("score")\<close> is \<^verbatim>\<open>None\<close> on every row, the rows having no such key.
\<close>

definition summary_get_score :: "summary_row \<Rightarrow> score_object option" where
  "summary_get_score x = None"

definition summary_key :: "summary_row \<Rightarrow> real" where
  "summary_key x =
     (case summary_get_score x of
        Some sc \<Rightarrow> total sc
      | None \<Rightarrow> real_of_int (sm_composite_score x))"

text \<open>\<^verbatim>\<open>get_all_funds\<close> (lines 566-603).\<close>

definition get_all_funds :: "funds_data \<Rightarrow> bool \<Rightarrow> summary_response" where
  "get_all_funds FUNDS_DATA reliable_only =
     (let results = map summary_row_of
                      (filter (\<lambda>nd. \<not> (reliable_only \<and> \<not> is_statistically_reliable (fund_metrics (snd nd))))
                         FUNDS_DATA);
          sorted_results = py_sorted_reverse summary_key results
      in \<lparr>sum_total = length sorted_results,
          sum_reliable_count = length (filter sm_is_reliable sorted_results),
          sum_funds = sorted_results\<rparr>)"

subsection \<open>Top funds\<close>

record top_row =
  tp_name :: string
  tp_code :: "int option"
  tp_type :: string
  tp_risk :: string
  tp_category :: string
  tp_category_emoji :: string
  tp_main_category :: string
  tp_sub_category :: "string option"
  tp_cagr :: "real option"
  tp_sharpe :: real
  tp_composite_score :: int
  tp_score :: "score_object option"
  tp_fund_age :: real

record top_response =
  top_category :: "string option"
  top_risk :: "string option"
  top_limit :: int
  top_count :: nat
  top_results :: "top_row list"

definition str_or_empty :: "string option \<Rightarrow> string" where
  "str_or_empty v = (case v of None \<Rightarrow> [] | Some t \<Rightarrow> t)"

text \<open>The filter of lines 624-640.\<close>

definition top_keeps :: "string option \<Rightarrow> string option \<Rightarrow> string \<times> fund_data \<Rightarrow> bool" where
  "top_keeps category risk nd =
     (let d = snd nd
      in is_statistically_reliable (fund_metrics d)
         \<and> \<not> (str_or_empty category \<noteq> []
                \<and> py_lower (str_or_empty category) \<noteq> py_lower (main_cat_of d))
         \<and> \<not> (str_or_empty risk \<noteq> []
                \<and> \<not> contains (py_lower (str_or_empty (riskometer d))) (py_lower (str_or_empty risk))))"

definition top_row_of :: "string \<times> fund_data \<Rightarrow> top_row" where
  "top_row_of nd =
     (let d = snd nd; m = fund_metrics d
      in \<lparr>tp_name = fst nd,
          tp_code = canonical_code d,
          tp_type = str_or_empty (fund_type d),
          tp_risk = str_or_empty (riskometer d),
          tp_category = cat_display_of d,
          tp_category_emoji = cat_emoji_of d,
          tp_main_category = main_cat_of d,
          tp_sub_category = sub_category d,
          tp_cagr = (if truthy (cagr m) then Some (py_round (num_or_zero (cagr m) * 100) 2) else None),
          tp_sharpe = py_round (num_or_zero (sharpe m)) 2,
          tp_composite_score = calculate_composite_score m,
          tp_score = fund_score d,
          tp_fund_age = py_round (num_or_zero (fund_age_years m)) 1\<rparr>)"

text \<open>The sort key of line 669: the total of the score object, else the composite score.\<close>

definition top_key :: "top_row \<Rightarrow> real" where
  "top_key x = (case tp_score x of Some sc \<Rightarrow> total sc | None \<Rightarrow> real_of_int (tp_composite_score x))"

text \<open>\<^verbatim>\<open>get_top_funds\<close> (lines 609-681).\<close>

definition get_top_funds :: "funds_data \<Rightarrow> int \<Rightarrow> string option \<Rightarrow> string option \<Rightarrow> top_response" where
  "get_top_funds FUNDS_DATA limit category risk =
     (let results = map top_row_of (filter (top_keeps category risk) FUNDS_DATA);
          sorted_results = py_sorted_reverse top_key results
      in \<lparr>top_category = category,
          top_risk = risk,
          top_limit = limit,
          top_count = length sorted_results,
          top_results = py_slice_to limit sorted_results\<rparr>)"

section \<open>The investment comparison endpoint\<close>

record investment_request =
  req_fund1_code :: int
  req_fund2_code :: int
  req_investment_date :: string
  req_investment_amount :: real

text \<open>
  \<^verbatim>\<open>HTTPException(status, detail)\<close>. The detail is a text, the \<^verbatim>\<open>CANNOT_COMPARE\<close>
  dictionary (message and \<^verbatim>\<open>fund2_start_date\<close>), or the text that the handler of
  lines 1156-1158 builds from an exception it did not expect.
\<close>

datatype http_detail =
  Text string
| CannotCompare (cannot_compare_message: string) (cannot_compare_start: string)
| InternalServerError py_exn

datatype http_exception = HTTPException (status_code: int) (detail: http_detail)

record adjustment_info =
  adjusted :: bool
  adj_reason :: "string option"
  adj_original_date :: "string option"
  adj_adjusted_date :: "string option"
  adj_fund2_start_date :: "string option"
  adj_disclaimer :: "string option"

record comparison_info =
  value_difference :: real
  percentage_difference :: real
  xirr_difference :: real
  is_fund2_better :: bool
  improvement_text :: string

record meta_info =
  meta_investment_amount :: real
  meta_investment_date :: string
  meta_calculation_date :: string

record comparison_response =
  cmp_fund1 :: investment_result
  cmp_fund2 :: investment_result
  cmp_comparison :: comparison_info
  cmp_adjustment :: adjustment_info
  cmp_meta :: meta_info

definition rupee :: string where
  "rupee = [CHR 0xE2, CHR 0x82, CHR 0xB9]"

definition pad3 :: "nat \<Rightarrow> string" where
  "pad3 n = [digit_char (int (n div 100 mod 10)), digit_char (int (n div 10 mod 10)),
             digit_char (int (n mod 10))]"

text \<open>The format \<^verbatim>\<open>{:,.0f}\<close> of a non-negative whole number: groups of three digits.\<close>

function thousands :: "nat \<Rightarrow> string" where
  "thousands n = (if n < 1000 then nat_digits n
                  else thousands (n div 1000) @ '','' @ pad3 (n mod 1000))"
  by pat_completeness auto
termination
  by (relation "measure id") auto

text \<open>
  \<^verbatim>\<open>today - timedelta(days=30)\<close> goes through the ordinal of the date and keeps the time
  of day; it raises \<^verbatim>\<open>OverflowError\<close> when the ordinal leaves the calendar. The result
  is kept as that ordinal with the time of day: \<^verbatim>\<open>date.fromordinal\<close> inverts
  \<^verbatim>\<open>toordinal\<close>, both are monotone, and the only use of the result is the comparison of
  line 1058, made here on (ordinal, time of day).
\<close>

definition MAXORDINAL :: int where
  "MAXORDINAL = 3652059"

definition minus_days :: "datetime \<Rightarrow> int \<Rightarrow> py_exn + int \<times> int \<times> int \<times> int \<times> int" where
  "minus_days dt n =
     (let ord = toordinal dt - n
      in if 0 < ord \<and> ord \<le> MAXORDINAL then Inr (ord, time_of dt) else Inl OverflowError)"

definition ordinal_key :: "datetime \<Rightarrow> int \<times> int \<times> int \<times> int \<times> int" where
  "ordinal_key dt = (toordinal dt, time_of dt)"

text \<open>The checks of lines 1036-1066, in their order; \<open>None\<close> when all of them pass.\<close>

definition validation :: "datetime \<Rightarrow> nav_data_map \<Rightarrow> investment_request \<Rightarrow> http_exception option" where
  "validation today NAV_DATA_MAP request =
     (let fund1_code = req_fund1_code request;
          fund2_code = req_fund2_code request;
          investment_date = req_investment_date request;
          investment_amount = req_investment_amount request
      in if investment_amount \<le> 0
         then Some (HTTPException 400 (Text ''Investment amount must be positive''))
         else if investment_amount < 500
         then Some (HTTPException 400 (Text (''Minimum investment amount is '' @ rupee @ ''500'')))
         else if investment_amount > 100000000
         then Some (HTTPException 400 (Text (''Maximum investment amount is '' @ rupee @ ''10 Crore'')))
         else
           (case parse_date investment_date of
              Inl e \<Rightarrow> Some (HTTPException 400 (Text ''Invalid date format. Use DD-MM-YYYY''))
            | Inr invest_date \<Rightarrow>
                if date_of invest_date \<ge> date_of today
                then Some (HTTPException 400 (Text ''Investment date cannot be today or in the future''))
                else
                  (case minus_days today 30 of
                     Inl e \<Rightarrow> Some (HTTPException 500 (InternalServerError e))
                   | Inr one_month_ago \<Rightarrow>
                       if ordinal_key invest_date > one_month_ago
                       then Some (HTTPException 400
                              (Text ''Investment date must be at least 1 month old for accurate comparison''))
                       else if NAV_DATA_MAP fund1_code = None
                       then Some (HTTPException 404
                              (Text (''Fund 1 (code: '' @ str_int fund1_code @ '') not found in NAV database'')))
                       else if NAV_DATA_MAP fund2_code = None
                       then Some (HTTPException 404
                              (Text (''Fund 2 (code: '' @ str_int fund2_code @ '') not found in NAV database'')))
                       else None)))"

definition fund1_start_guidance :: "nav_data_map \<Rightarrow> int \<Rightarrow> string \<Rightarrow> string" where
  "fund1_start_guidance NAV_DATA_MAP fund1_code fund_start =
     (case NAV_DATA_MAP fund1_code of None \<Rightarrow> ''Your fund'' | Some sch \<Rightarrow> name sch)
     @ '' started on '' @ fund_start @ ''. Please select a date after this.''"

definition cannot_compare :: "string \<Rightarrow> http_exception" where
  "cannot_compare fund2_start_date =
     HTTPException 400
       (CannotCompare
          (''Cannot compare: Recommended fund started on '' @ fund2_start_date
             @ '', but your fund data is not available from that date.'')
          fund2_start_date)"

definition adjusted_info :: "string \<Rightarrow> string \<Rightarrow> adjustment_info" where
  "adjusted_info original_investment_date fund2_start_date =
     \<lparr>adjusted = True,
      adj_reason = Some ''Recommended fund started later than your investment date'',
      adj_original_date = Some original_investment_date,
      adj_adjusted_date = Some fund2_start_date,
      adj_fund2_start_date = Some fund2_start_date,
      adj_disclaimer = Some (''The recommended fund started on '' @ fund2_start_date
                              @ ''. Comparison is from that date onwards for fair evaluation.'')\<rparr>"

definition not_adjusted_info :: adjustment_info where
  "not_adjusted_info =
     \<lparr>adjusted = False, adj_reason = None, adj_original_date = None,
      adj_adjusted_date = None, adj_fund2_start_date = None, adj_disclaimer = None\<rparr>"

text \<open>
  Lines 1129-1152: the differences and the response. \<^verbatim>\<open>fund2_returns\<close> is read without a
  check: on an error dictionary \<^verbatim>\<open>fund2_returns['current']\<close> raises \<^verbatim>\<open>KeyError\<close>, which
  the handler of lines 1156-1158 turns into status 500. The second reading of the clock
  (line 1150) is \<open>calc_now\<close>.
\<close>

definition build_response ::
  "datetime \<Rightarrow> investment_request \<Rightarrow> investment_result \<Rightarrow> returns_result \<Rightarrow> adjustment_info
     \<Rightarrow> http_exception + comparison_response" where
  "build_response calc_now request fund1_returns fund2_returns adjustment =
     (case fund2_returns of
        Returns fund2 \<Rightarrow>
          let value_diff = cur_value (res_current fund2) - cur_value (res_current fund1_returns);
              percentage_diff = ret_percentage (res_returns fund2) - ret_percentage (res_returns fund1_returns);
              xirr_diff = ret_xirr (res_returns fund2) - ret_xirr (res_returns fund1_returns)
          in Inr \<lparr>cmp_fund1 = fund1_returns,
                  cmp_fund2 = fund2,
                  cmp_comparison =
                    \<lparr>value_difference = py_round value_diff 2,
                     percentage_difference = py_round percentage_diff 2,
                     xirr_difference = py_round xirr_diff 2,
                     is_fund2_better = (value_diff > 0),
                     improvement_text =
                       ''Fund 2 would have given you '' @ rupee
                         @ thousands (nat (round_half_even \<bar>value_diff\<bar>)) @ '' ''
                         @ (if value_diff > 0 then ''more'' else ''less'')\<rparr>,
                  cmp_adjustment = adjustment,
                  cmp_meta =
                    \<lparr>meta_investment_amount = req_investment_amount request,
                     meta_investment_date = req_investment_date request,
                     meta_calculation_date = format_date calc_now\<rparr>\<rparr>
      | _ \<Rightarrow> Inl (HTTPException 500 (InternalServerError KeyError)))"

text \<open>
  \<^verbatim>\<open>compare_investment\<close> (lines 1004-1158). An exception that is not an
  \<^verbatim>\<open>HTTPException\<close> leaves as status 500.
\<close>

definition compare_investment ::
  "datetime \<Rightarrow> datetime \<Rightarrow> nav_data_map \<Rightarrow> investment_request
     \<Rightarrow> http_exception + comparison_response" where
  "compare_investment today calc_now NAV_DATA_MAP request =
     (let fund1_code = req_fund1_code request;
          fund2_code = req_fund2_code request;
          investment_date = req_investment_date request;
          investment_amount = req_investment_amount request
      in
     (case validation today NAV_DATA_MAP request of
        Some err \<Rightarrow> Inl err
      | None \<Rightarrow>
     (case calculate_returns NAV_DATA_MAP fund1_code investment_amount investment_date of
        Inl e \<Rightarrow> Inl (HTTPException 500 (InternalServerError e))
      | Inr (ErrorMessage msg) \<Rightarrow> Inl (HTTPException 400 (Text msg))
      | Inr (ErrorBeforeStart fund_start msg) \<Rightarrow>
          Inl (HTTPException 400 (Text (fund1_start_guidance NAV_DATA_MAP fund1_code fund_start)))
      | Inr (Returns fund1_returns) \<Rightarrow>
     (case calculate_returns NAV_DATA_MAP fund2_code investment_amount investment_date of
        Inl e \<Rightarrow> Inl (HTTPException 500 (InternalServerError e))
      | Inr (ErrorBeforeStart fund2_start_date msg) \<Rightarrow>
          (case calculate_returns NAV_DATA_MAP fund2_code investment_amount fund2_start_date of
             Inl e \<Rightarrow> Inl (HTTPException 500 (InternalServerError e))
           | Inr fund2_returns \<Rightarrow>
               (case calculate_returns NAV_DATA_MAP fund1_code investment_amount fund2_start_date of
                  Inl e \<Rightarrow> Inl (HTTPException 500 (InternalServerError e))
                | Inr (Returns fund1_adjusted) \<Rightarrow>
                    build_response calc_now request fund1_adjusted fund2_returns
                      (adjusted_info investment_date fund2_start_date)
                | Inr _ \<Rightarrow> Inl (cannot_compare fund2_start_date)))
      | Inr (ErrorMessage msg) \<Rightarrow> Inl (HTTPException 404 (Text (''Recommended fund: '' @ msg)))
      | Inr (Returns fund2_returns) \<Rightarrow>
          build_response calc_now request fund1_returns (Returns fund2_returns) not_adjusted_info))))"

section \<open>Example data\<close>

text \<open>A catalog of 25 funds whose names all contain \<open>fu\<close>, scored 0 to 24.\<close>

definition blank_metrics :: fund_metrics where
  "blank_metrics =
     \<lparr>is_statistically_reliable = False, cagr = None, rolling_3y = None,
      consistency_score = None, sharpe = None, max_drawdown = None, sortino = None,
      calmar_ratio = None, gain_to_pain_ratio = None, positive_months_pct = None,
      ulcer_index = None, fund_age_years = None, data_quality = None\<rparr>"

definition blank_fund :: fund_data where
  "blank_fund =
     \<lparr>canonical_code = None, fund_type = None, riskometer = None,
      main_category = None, sub_category = None, category_display = None,
      category_emoji = None, total_nav_records = None, fund_metrics = blank_metrics,
      fund_score = None\<rparr>"

definition catalog25 :: funds_data where
  "catalog25 =
     map (\<lambda>i. (''Fund '' @ nat_digits i, blank_fund\<lparr>fund_score := Some (Score (real i))\<rparr>))
       [0..<25]"

text \<open>
  A NAV store with four schemes: X (code 1) with observations from 2020, Y (code 2)
  starting on 1 June 2023, Z (code 3) starting on 1 March 2023, and an entry without
  observations (code 4).
\<close>

definition scheme_x :: nav_scheme where
  "scheme_x =
     \<lparr>name = ''Fund X'', fund_house = ''House A'',
      data = [\<lparr>date = ''01-01-2020'', nav = 8\<rparr>, \<lparr>date = ''01-01-2023'', nav = 10\<rparr>,
              \<lparr>date = ''01-06-2023'', nav = 12\<rparr>, \<lparr>date = ''01-01-2024'', nav = 15\<rparr>]\<rparr>"

definition scheme_y :: nav_scheme where
  "scheme_y =
     \<lparr>name = ''Fund Y'', fund_house = ''House B'',
      data = [\<lparr>date = ''01-06-2023'', nav = 10\<rparr>, \<lparr>date = ''01-01-2024'', nav = 20\<rparr>]\<rparr>"

definition scheme_z :: nav_scheme where
  "scheme_z =
     \<lparr>name = ''Fund Z'', fund_house = ''House C'',
      data = [\<lparr>date = ''01-03-2023'', nav = 5\<rparr>, \<lparr>date = ''01-01-2024'', nav = 6\<rparr>]\<rparr>"

definition scheme_empty :: nav_scheme where
  "scheme_empty = \<lparr>name = ''Fund E'', fund_house = ''House D'', data = []\<rparr>"

definition example_store :: nav_data_map where
  "example_store = [1 \<mapsto> scheme_x, 2 \<mapsto> scheme_y, 3 \<mapsto> scheme_z, 4 \<mapsto> scheme_empty]"

section \<open>Properties of the fund search\<close>

text \<open>
  Claim C9. For a query of at least two characters and any filters, the search returns
  at most 20 rows: the first 20 of the matching rows after sorting. The echoed query
  and filters are those of the request, whatever was cut.
\<close>

theorem search_funds_truncates:
  assumes "2 \<le> length q"
  shows "length (resp_results (search_funds FUNDS_DATA q reliable_only min_age min_cagr)) \<le> 20
       \<and> resp_results (search_funds FUNDS_DATA q reliable_only min_age min_cagr)
           = take 20 (py_sorted_reverse search_key
               (map search_row_of
                  (filter (search_keeps (py_lower q) reliable_only min_age min_cagr) FUNDS_DATA)))
       \<and> resp_query (search_funds FUNDS_DATA q reliable_only min_age min_cagr) = q
       \<and> resp_filters (search_funds FUNDS_DATA q reliable_only min_age min_cagr)
           = Some \<lparr>flt_reliable_only = reliable_only, flt_min_age = min_age,
                    flt_min_cagr = min_cagr\<rparr>"
  using assms by (simp add: search_funds_def Let_def)

theorem search_funds_truncates_witness:
  "2 \<le> length ''fu''
   \<and> length (resp_results (search_funds catalog25 ''fu'' False 0 0)) \<le> 20
   \<and> resp_query (search_funds catalog25 ''fu'' False 0 0) = ''fu''"
  using search_funds_truncates [of "''fu''" catalog25 False 0 0] by simp

section \<open>Dates as text: formatting and parsing back\<close>

lemma digit_range_cases:
  assumes "0 \<le> k" "k < (10::int)"
  shows "k = 0 \<or> k = 1 \<or> k = 2 \<or> k = 3 \<or> k = 4 \<or> k = 5 \<or> k = 6 \<or> k = 7 \<or> k = 8 \<or> k = 9"
  using assms by arith

lemma digit_char_facts:
  assumes "0 \<le> k" "k < 10"
  shows "digit_val (digit_char k) = Some k" "digit_char k \<noteq> CHR ''-''"
    "digit_char k \<noteq> CHR ''+''" "digit_char k \<noteq> CHR ''_''" "\<not> is_space (digit_char k)"
  using digit_range_cases [OF assms]
  by (auto simp: digit_val_def digit_char_def is_space_def)

lemma py_digits_digit:
  assumes "0 \<le> k" "k < 10"
  shows "py_digits (digit_char k # cs) acc = py_digits cs (10 * acc + k)"
  using digit_char_facts [OF assms] by simp

lemma py_nat_digit:
  assumes "0 \<le> k" "k < 10"
  shows "py_nat (digit_char k # cs) = py_digits cs k"
  using digit_char_facts [OF assms] by (simp add: py_nat_def)

lemma strip_plain:
  assumes "\<not> is_space a" "\<not> is_space b"
  shows "strip (a # cs @ [b]) = a # cs @ [b]"
  using assms by (simp add: strip_def)

lemma py_int_plain:
  assumes "0 \<le> a" "a < 10" "0 \<le> b" "b < 10"
  shows "py_int (digit_char a # cs @ [digit_char b]) = py_digits (cs @ [digit_char b]) a"
proof -
  have "strip (digit_char a # cs @ [digit_char b]) = digit_char a # cs @ [digit_char b]"
    using digit_char_facts(5) [OF assms(1,2)] digit_char_facts(5) [OF assms(3,4)]
    by (rule strip_plain)
  then show ?thesis
    using digit_char_facts(2,3) [OF assms(1,2)] py_nat_digit [OF assms(1,2)]
    by (simp add: py_int_def)
qed

lemma py_int_two_digits:
  assumes "0 \<le> a" "a < 10" "0 \<le> b" "b < 10"
  shows "py_int [digit_char a, digit_char b] = Some (10 * a + b)"
  using py_int_plain [OF assms, of "[]"] py_digits_digit [OF assms(3,4)] by simp

lemma py_int_four_digits:
  assumes "0 \<le> a" "a < 10" "0 \<le> b" "b < 10" "0 \<le> c" "c < 10" "0 \<le> d" "d < 10"
  shows "py_int [digit_char a, digit_char b, digit_char c, digit_char d]
         = Some (10 * (10 * (10 * a + b) + c) + d)"
  using py_int_plain [OF assms(1,2,7,8), of "[digit_char b, digit_char c]"]
    py_digits_digit [OF assms(3,4)] py_digits_digit [OF assms(5,6)] py_digits_digit [OF assms(7,8)]
  by simp

lemma py_int_pad2:
  assumes "0 \<le> n" "n < 100"
  shows "py_int (pad2 n) = Some n"
proof -
  have "n div 10 < 10" using assms by simp
  then have "n div 10 mod 10 = n div 10" using assms by simp
  then have e: "10 * (n div 10 mod 10) + n mod 10 = n" by simp
  have "py_int (pad2 n) = Some (10 * (n div 10 mod 10) + n mod 10)"
    unfolding pad2_def by (rule py_int_two_digits) simp_all
  then show ?thesis by (simp only: e)
qed

lemma py_int_pad4:
  assumes "0 \<le> n" "n < 10000"
  shows "py_int (pad4 n) = Some n"
proof -
  have "n div (100 * 10) = n div 100 div 10" by (rule zdiv_zmult2_eq) simp
  then have k: "n div 100 div 10 = n div 1000" by simp
  have "n div (10 * 10) = n div 10 div 10" by (rule zdiv_zmult2_eq) simp
  then have h: "n div 10 div 10 = n div 100" by simp
  have "n div 1000 < 10" using assms by simp
  then have t: "n div 1000 mod 10 = n div 1000" using assms by simp
  have e1: "10 * (n div 1000) + n div 100 mod 10 = n div 100"
    using mult_div_mod_eq [of 10 "n div 100"] by (simp only: k)
  have e2: "10 * (n div 100) + n div 10 mod 10 = n div 10"
    using mult_div_mod_eq [of 10 "n div 10"] by (simp only: h)
  have e3: "10 * (n div 10) + n mod 10 = n"
    using mult_div_mod_eq [of 10 n] by simp
  have "py_int (pad4 n)
        = Some (10 * (10 * (10 * (n div 1000 mod 10) + n div 100 mod 10) + n div 10 mod 10) + n mod 10)"
    unfolding pad4_def by (rule py_int_four_digits) simp_all
  then show ?thesis by (simp only: t e1 e2 e3)
qed

lemma split_on_plain:
  assumes "sep \<notin> set c"
  shows "split_on sep c = [c]"
  using assms by (induction c) auto

lemma split_on_append:
  assumes "sep \<notin> set a"
  shows "split_on sep (a @ sep # rest) = a # split_on sep rest"
  using assms by (induction a) auto

lemma dash_not_in_pad:
  "CHR ''-'' \<notin> set (pad2 n)" "CHR ''-'' \<notin> set (pad4 n)"
proof -
  have nd: "\<And>k. CHR ''-'' \<noteq> digit_char (k mod 10)"
  proof -
    fix k :: int
    have "0 \<le> k mod 10" "k mod 10 < 10" by simp_all
    from digit_char_facts(2) [OF this] show "CHR ''-'' \<noteq> digit_char (k mod 10)" by (rule not_sym)
  qed
  show "CHR ''-'' \<notin> set (pad2 n)" by (simp add: pad2_def nd)
  show "CHR ''-'' \<notin> set (pad4 n)" by (simp add: pad4_def nd)
qed

lemma days_in_month_bounds:
  assumes "1 \<le> m" "m \<le> 12"
  shows "28 \<le> days_in_month y m \<and> days_in_month y m \<le> 31"
proof -
  have "m = 1 \<or> m = 2 \<or> m = 3 \<or> m = 4 \<or> m = 5 \<or> m = 6 \<or> m = 7 \<or> m = 8 \<or> m = 9 \<or> m = 10 \<or> m = 11 \<or> m = 12"
    using assms by arith
  then show ?thesis
    by (elim disjE) (simp_all add: days_in_month_def DAYS_IN_MONTH_def)
qed

lemma split_formatted:
  "split_on CHR ''-'' (format_date dt) = [pad2 (day_of dt), pad2 (month_of dt), pad4 (year_of dt)]"
proof -
  have "split_on CHR ''-'' (format_date dt)
        = pad2 (day_of dt) # split_on CHR ''-'' (pad2 (month_of dt) @ CHR ''-'' # pad4 (year_of dt))"
    unfolding format_date_def using split_on_append [OF dash_not_in_pad(1)] by simp
  also have "split_on CHR ''-'' (pad2 (month_of dt) @ CHR ''-'' # pad4 (year_of dt))
        = pad2 (month_of dt) # split_on CHR ''-'' (pad4 (year_of dt))"
    by (rule split_on_append [OF dash_not_in_pad(1)])
  also have "split_on CHR ''-'' (pad4 (year_of dt)) = [pad4 (year_of dt)]"
    by (rule split_on_plain [OF dash_not_in_pad(2)])
  finally show ?thesis .
qed

lemma parse_format_date:
  assumes "valid_date y m d"
  shows "parse_date (format_date (y, m, d, 0, 0, 0, 0)) = Inr (y, m, d, 0, 0, 0, 0)"
proof -
  let ?dt = "(y, m, d, 0, 0, 0, 0) :: datetime"
  have ym: "0 \<le> y" "y < 10000" "0 \<le> m" "m < 100" "1 \<le> m" "m \<le> 12" "0 \<le> d"
    using assms by (simp_all add: valid_date_def)
  have "d \<le> 31" using days_in_month_bounds [OF ym(5,6), of y] assms by (simp add: valid_date_def)
  then have d: "d < 100" by simp
  have f: "day_of ?dt = d" "month_of ?dt = m" "year_of ?dt = y"
    by (simp_all add: day_of_def month_of_def year_of_def)
  have s: "split_on CHR ''-'' (format_date ?dt) = [pad2 d, pad2 m, pad4 y]"
    using split_formatted [of ?dt] by (simp only: f)
  show ?thesis
    unfolding parse_date_def s
    using assms
    by (simp add: py_int_pad2 [OF ym(7) d] py_int_pad2 [OF ym(3,4)]
        py_int_pad4 [OF ym(1,2)] mk_datetime_def)
qed

section \<open>Parsed series and sorting\<close>

lemma parse_date_valid:
  assumes "parse_date s = Inr dt"
  shows "\<exists>y m d. dt = (y, m, d, 0, 0, 0, 0) \<and> valid_date y m d"
  using assms
  by (auto simp: parse_date_def mk_datetime_def split: list.splits option.splits if_splits)

lemma parse_date_error:
  "parse_date s = Inl e \<Longrightarrow> e = ValueError"
  by (auto simp: parse_date_def mk_datetime_def split: list.splits option.splits if_splits)

lemma parse_date_midnight:
  assumes "parse_date s = Inr a" "parse_date s' = Inr b"
  shows "date_of a = date_of b \<longleftrightarrow> a = b"
  using parse_date_valid [OF assms(1)] parse_date_valid [OF assms(2)]
  by (auto simp: date_of_def year_of_def month_of_def day_of_def)

lemma parse_dates_length:
  "parse_dates es = Inr ds \<Longrightarrow> length ds = length es"
  by (induction es arbitrary: ds) (auto split: sum.splits)

lemma parse_dates_nth:
  "parse_dates es = Inr ds \<Longrightarrow> i < length es \<Longrightarrow> parse_date (date (es ! i)) = Inr (ds ! i)"
proof (induction es arbitrary: ds i)
  case Nil
  then show ?case by simp
next
  case (Cons e es)
  then show ?case by (cases i) (auto split: sum.splits)
qed

lemma parse_dates_error:
  "parse_dates es = Inl x \<Longrightarrow> x = ValueError"
  by (induction es) (auto split: sum.splits dest: parse_date_error)

lemma find_exact_parsed:
  "parse_dates es = Inr ds \<Longrightarrow>
   find_exact es t =
     Inr (map_option (\<lambda>p. NavPoint (nav (fst p)) (date (fst p)) True)
            (find (\<lambda>p. date_of (snd p) = date_of t) (zip es ds)))"
  by (induction es arbitrary: ds) (auto split: sum.splits)

lemma previous_navs_parsed:
  "parse_dates es = Inr ds \<Longrightarrow>
   previous_navs es t =
     Inr (map (\<lambda>p. (nav (fst p), date (fst p), snd p)) (filter (\<lambda>p. snd p \<le> t) (zip es ds)))"
  by (induction es arbitrary: ds) (auto split: sum.splits)

lemma with_date_keys_parsed:
  "parse_dates es = Inr ds \<Longrightarrow> with_date_keys es = Inr (zip es ds)"
  by (induction es arbitrary: ds) (auto split: sum.splits)

lemma sort_head_Min:
  fixes xs :: "'a::linorder list"
  assumes "sort xs = y # ys"
  shows "y = Min (set xs)"
proof -
  have "set (y # ys) = set xs" using assms set_sort [of "\<lambda>x. x" xs] by simp
  moreover have "sorted (y # ys)" using assms sorted_sort [of xs] by simp
  ultimately have "y \<in> set xs" "\<forall>z\<in>set xs. y \<le> z" by auto
  then have "Min (set xs) = y" by (intro Min_eqI) auto
  then show ?thesis by simp
qed

lemma find_filter_hd:
  "find P xs = (case filter P xs of [] \<Rightarrow> None | x # _ \<Rightarrow> Some x)"
  by (induction xs) auto

lemma py_sorted_reverse_head:
  fixes key :: "'a \<Rightarrow> 'k::linorder"
  assumes "py_sorted_reverse key xs = y # ys"
  shows "key y = Max (key ` set xs)" "find (\<lambda>x. key x = Max (key ` set xs)) xs = Some y"
proof -
  let ?l = "sort_key key (rev xs)"
  have l: "?l = rev ys @ [y]"
    using assms unfolding py_sorted_reverse_def by (metis rev.simps(2) rev_rev_ident)
  have "sorted (map key ?l)" by simp
  then have le: "\<forall>z\<in>set (rev ys). key z \<le> key y"
    unfolding l by (simp add: sorted_append)
  have sl: "set ?l = set xs" by simp
  then have yin: "y \<in> set xs" unfolding l by auto
  have "\<forall>z\<in>set xs. key z \<le> key y" using le sl unfolding l by auto
  then show k: "key y = Max (key ` set xs)"
    using yin by (intro Max_eqI [symmetric]) auto
  let ?P = "\<lambda>x. key x = key y"
  have "filter ?P ?l = filter ?P (rev xs)" by (rule sort_key_stable)
  then have "filter ?P (rev ys) @ [y] = rev (filter ?P xs)"
    unfolding l by (simp add: rev_filter)
  then have "filter ?P xs = y # rev (filter ?P (rev ys))"
    by (metis rev.simps(2) rev_rev_ident rev_append rev.simps(1) append_Nil)
  then show "find (\<lambda>x. key x = Max (key ` set xs)) xs = Some y"
    unfolding k [symmetric] by (simp add: find_filter_hd)
qed

lemma py_sorted_reverse_Nil:
  "py_sorted_reverse key xs = [] \<longleftrightarrow> xs = []"
  unfolding py_sorted_reverse_def by (metis rev_is_Nil_conv length_sort length_0_conv)

section \<open>The resolver on a parsed series\<close>

lemma parse_dates_set:
  assumes "parse_dates es = Inr ds" "d \<in> set ds"
  shows "\<exists>e\<in>set es. parse_date (date e) = Inr d"
proof -
  from assms(2) obtain i where i: "i < length ds" "ds ! i = d"
    by (auto simp: in_set_conv_nth)
  then have "i < length es" using parse_dates_length [OF assms(1)] by simp
  then have "parse_date (date (es ! i)) = Inr d" "es ! i \<in> set es"
    using parse_dates_nth [OF assms(1)] i by auto
  then show ?thesis by blast
qed

lemma parse_dates_same_day:
  assumes "parse_dates es = Inr ds" "parse_date s = Inr t" "p \<in> set (zip es ds)"
  shows "date_of (snd p) = date_of t \<longleftrightarrow> snd p = t"
proof -
  have "(fst p, snd p) \<in> set (zip es ds)" using assms(3) by simp
  then have "snd p \<in> set ds" by (rule set_zip_rightD)
  then obtain e :: nav_entry where "parse_date (date e) = Inr (snd p)"
    using parse_dates_set [OF assms(1)] by blast
  then show ?thesis using parse_date_midnight assms(2) by blast
qed

lemma find_zip_date:
  "parse_dates es = Inr ds \<Longrightarrow>
   find (\<lambda>p. snd p = d0) (zip es ds)
     = map_option (\<lambda>e. (e, d0)) (find (\<lambda>e. parse_date (date e) = Inr d0) es)"
  by (induction es arbitrary: ds) (auto split: sum.splits)

lemma find_map:
  "find Q (map f xs) = map_option f (find (\<lambda>x. Q (f x)) xs)"
  by (induction xs) auto

lemma find_filter:
  "find Q (filter P xs) = find (\<lambda>x. P x \<and> Q x) xs"
  by (induction xs) auto

lemma zip_snd_set:
  "length es = length ds \<Longrightarrow> snd ` set (zip es ds) = set ds"
  by (induction es ds rule: list_induct2) auto

text \<open>The resolver on a scheme whose dates all parse.\<close>

lemma get_nav_on_date_parsed:
  assumes "NAV_DATA_MAP scheme_code = Some nav_scheme"
    and "parse_dates (data nav_scheme) = Inr dates"
    and "data nav_scheme \<noteq> []"
    and "parse_date investment_date = Inr target"
  shows "get_nav_on_date NAV_DATA_MAP scheme_code investment_date =
     (if target < Min (set dates)
      then Inr (BeforeFundStart (format_date (Min (set dates)))
                  (before_start_message (Min (set dates))))
      else
        (case find (\<lambda>p. snd p = target) (zip (data nav_scheme) dates) of
           Some p \<Rightarrow> Inr (NavPoint (nav (fst p)) (date (fst p)) True)
         | None \<Rightarrow>
             (case py_sorted_reverse (\<lambda>x. snd (snd x))
                     (map (\<lambda>p. (nav (fst p), date (fst p), snd p))
                        (filter (\<lambda>p. snd p \<le> target) (zip (data nav_scheme) dates))) of
                [] \<Rightarrow> Inr NotFound
              | nearest # _ \<Rightarrow> Inr (NavPoint (fst nearest) (fst (snd nearest)) False))))"
proof -
  have "length dates = length (data nav_scheme)" by (rule parse_dates_length [OF assms(2)])
  then have "dates \<noteq> []" using assms(3) by auto
  then have "sort dates \<noteq> []" by (metis length_sort length_0_conv)
  then obtain first rest where s: "sort dates = first # rest" by (cases "sort dates") auto
  have f: "first = Min (set dates)" by (rule sort_head_Min [OF s])
  have c: "find (\<lambda>p. date_of (snd p) = date_of target) (zip (data nav_scheme) dates)
           = find (\<lambda>p. snd p = target) (zip (data nav_scheme) dates)"
    by (rule find_cong [OF refl]) (rule parse_dates_same_day [OF assms(2,4)])
  show ?thesis
    unfolding get_nav_on_date_def
    by (simp add: assms(1,2,4) s f find_exact_parsed [OF assms(2)] c
        previous_navs_parsed [OF assms(2)] split: option.splits)
qed

section \<open>The nearest earlier observation\<close>

text \<open>
  The two scans of the resolver over a list of (entry, date) pairs, for any entry and
  date types: the first pair dated \<open>t\<close> and, failing that, the head of the pairs dated
  up to \<open>t\<close> sorted downwards both are the first pair that carries the latest date up
  to \<open>t\<close>.
\<close>

lemma find_snd_None:
  "find (\<lambda>p. snd p = t) zs = None \<longleftrightarrow> t \<notin> snd ` set zs"
  by (induction zs) auto

lemma find_snd_Some:
  "find (\<lambda>p. snd p = t) zs = Some q \<Longrightarrow> snd q = t \<and> q \<in> set zs"
  by (induction zs) (auto split: if_splits)

lemma nearest_generic:
  fixes zs :: "('e \<times> 'd::linorder) list"
  assumes "\<exists>p\<in>set zs. snd p \<le> t"
  shows "\<exists>p. find (\<lambda>p. snd p = Max {x \<in> snd ` set zs. x \<le> t}) zs = Some p
           \<and> Max {x \<in> snd ` set zs. x \<le> t} \<in> snd ` set zs
           \<and> Max {x \<in> snd ` set zs. x \<le> t} \<le> t
           \<and> (case find (\<lambda>p. snd p = t) zs of
                 Some q \<Rightarrow> q = p \<and> Max {x \<in> snd ` set zs. x \<le> t} = t
               | None \<Rightarrow>
                   Max {x \<in> snd ` set zs. x \<le> t} \<noteq> t
                   \<and> (\<exists>ys. py_sorted_reverse (\<lambda>x. snd (snd x))
                              (map (\<lambda>p. (g (fst p), h (fst p), snd p))
                                 (filter (\<lambda>p. snd p \<le> t) zs))
                            = (g (fst p), h (fst p), snd p) # ys))"
proof -
  let ?S = "{x \<in> snd ` set zs. x \<le> t}"
  let ?K = "Max ?S"
  let ?f = "\<lambda>p :: 'e \<times> 'd. (g (fst p), h (fst p), snd p)"
  let ?F = "filter (\<lambda>p. snd p \<le> t) zs"
  let ?key = "\<lambda>x :: 'a \<times> 'b \<times> 'd. snd (snd x)"
  have fin: "finite ?S" by simp
  have ne: "?S \<noteq> {}" using assms by auto
  have kin: "?K \<in> ?S" using fin ne by (rule Max_in)
  then have k1: "?K \<in> snd ` set zs" and k2: "?K \<le> t" by simp_all
  from k1 have "find (\<lambda>p. snd p = ?K) zs \<noteq> None" by (simp add: find_snd_None)
  then obtain p where p: "find (\<lambda>p. snd p = ?K) zs = Some p" by auto
  show ?thesis
  proof (cases "find (\<lambda>p. snd p = t) zs")
    case (Some q)
    then have "snd q = t" "q \<in> set zs" using find_snd_Some by fast+
    then have "t \<in> ?S" by auto
    then have "?K = t" by (intro Max_eqI) auto
    then show ?thesis using p Some k1 k2 by simp
  next
    case None
    then have "t \<notin> snd ` set zs" by (simp add: find_snd_None)
    then have kne: "?K \<noteq> t" using k1 by metis
    have "?F \<noteq> []" using assms by (auto simp: filter_empty_conv)
    then have "py_sorted_reverse ?key (map ?f ?F) \<noteq> []"
      by (simp add: py_sorted_reverse_Nil)
    then obtain y ys where s: "py_sorted_reverse ?key (map ?f ?F) = y # ys"
      by (cases "py_sorted_reverse ?key (map ?f ?F)") auto
    have img: "?key ` set (map ?f ?F) = ?S" by force
    have fy: "find (\<lambda>x. ?key x = ?K) (map ?f ?F) = Some y"
      using py_sorted_reverse_head(2) [OF s] unfolding img .
    have "find (\<lambda>p. snd p \<le> t \<and> snd p = ?K) zs = find (\<lambda>p. snd p = ?K) zs"
      by (rule find_cong [OF refl]) (use k2 in auto)
    then have "map_option ?f (find (\<lambda>p. snd p = ?K) zs) = Some y"
      using fy by (simp add: find_map find_filter)
    then have "y = ?f p" using p by simp
    then show ?thesis using p None s kne k1 k2 by simp
  qed
qed

lemma image_bex:
  "y \<in> f ` A \<Longrightarrow> \<exists>p\<in>A. f p = y"
  by auto

lemma Min_date_zipped:
  assumes "parse_dates es = Inr ds" "es \<noteq> []"
  shows "Min (set ds) \<in> set ds" "\<exists>p\<in>set (zip es ds). snd p = Min (set ds)"
proof -
  have len: "length es = length ds" using parse_dates_length [OF assms(1)] by simp
  then have "ds \<noteq> []" using assms(2) by auto
  then show m: "Min (set ds) \<in> set ds" by (intro Min_in) auto
  then have "Min (set ds) \<in> snd ` set (zip es ds)" using zip_snd_set [OF len] by simp
  then show "\<exists>p\<in>set (zip es ds). snd p = Min (set ds)" by (rule image_bex)
qed

lemma get_nav_on_date_nearest:
  assumes "NAV_DATA_MAP scheme_code = Some nav_scheme"
    and "parse_dates (data nav_scheme) = Inr dates"
    and "data nav_scheme \<noteq> []"
    and "parse_date investment_date = Inr target"
    and "Min (set dates) \<le> target"
  shows "\<exists>entry. find (\<lambda>e. parse_date (date e) = Inr (Max {x \<in> set dates. x \<le> target}))
                   (data nav_scheme) = Some entry
               \<and> get_nav_on_date NAV_DATA_MAP scheme_code investment_date
                   = Inr (NavPoint (nav entry) (date entry)
                            (Max {x \<in> set dates. x \<le> target} = target))"
proof -
  let ?es = "data nav_scheme"
  let ?Z = "zip ?es dates"
  let ?K = "Max {x \<in> set dates. x \<le> target}"
  let ?sorted = "py_sorted_reverse (\<lambda>x :: real \<times> string \<times> datetime. snd (snd x))
                   (map (\<lambda>p. (nav (fst p), date (fst p), snd p))
                      (filter (\<lambda>p. snd p \<le> target) ?Z))"
  have len: "length ?es = length dates" using parse_dates_length [OF assms(2)] by simp
  have img: "snd ` set ?Z = set dates" by (rule zip_snd_set [OF len])
  have nb: "\<not> target < Min (set dates)" using assms(5) by simp
  note unfold = get_nav_on_date_parsed [where NAV_DATA_MAP = NAV_DATA_MAP
      and scheme_code = scheme_code, OF assms(1-4)]
  obtain p0 where p0: "p0 \<in> set ?Z" "snd p0 = Min (set dates)"
    using Min_date_zipped(2) [OF assms(2,3)] ..
  have "snd p0 \<le> target" using p0(2) assms(5) by simp
  with p0(1) have ex: "\<exists>p\<in>set ?Z. snd p \<le> target" ..
  have "\<exists>p. find (\<lambda>p. snd p = ?K) ?Z = Some p
           \<and> ?K \<in> set dates \<and> ?K \<le> target
           \<and> (case find (\<lambda>p. snd p = target) ?Z of
                 Some q \<Rightarrow> q = p \<and> ?K = target
               | None \<Rightarrow> ?K \<noteq> target
                   \<and> (\<exists>ys. ?sorted = (nav (fst p), date (fst p), snd p) # ys))"
    using nearest_generic [OF ex, of nav date] unfolding img .
  then obtain p where p: "find (\<lambda>p. snd p = ?K) ?Z = Some p"
    and c: "(case find (\<lambda>p. snd p = target) ?Z of
               Some q \<Rightarrow> q = p \<and> ?K = target
             | None \<Rightarrow> ?K \<noteq> target
                 \<and> (\<exists>ys. ?sorted = (nav (fst p), date (fst p), snd p) # ys))"
    by (elim exE conjE)
  have "map_option (\<lambda>e. (e, ?K)) (find (\<lambda>e. parse_date (date e) = Inr ?K) ?es) = Some p"
    using p unfolding find_zip_date [OF assms(2), of ?K] .
  then obtain entry where e: "find (\<lambda>e. parse_date (date e) = Inr ?K) ?es = Some entry"
    and pe: "p = (entry, ?K)"
    by (cases "find (\<lambda>e. parse_date (date e) = Inr ?K) ?es") simp_all
  have fp: "fst p = entry" unfolding pe by (rule fst_conv)
  have "get_nav_on_date NAV_DATA_MAP scheme_code investment_date
          = Inr (NavPoint (nav entry) (date entry) (?K = target))"
  proof (cases "find (\<lambda>p. snd p = target) ?Z")
    case (Some q)
    from c have "q = p \<and> ?K = target" unfolding Some by simp
    then have q: "fst q = entry" and k: "(?K = target) = True" using fp by simp_all
    have "get_nav_on_date NAV_DATA_MAP scheme_code investment_date
          = Inr (NavPoint (nav (fst q)) (date (fst q)) True)"
      unfolding unfold Some using nb by (simp only: if_False option.case)
    then show ?thesis unfolding q k .
  next
    case None
    from c have "?K \<noteq> target \<and> (\<exists>ys. ?sorted = (nav (fst p), date (fst p), snd p) # ys)"
      unfolding None by simp
    then obtain ys where k: "(?K = target) = False"
      and s: "?sorted = (nav entry, date entry, snd p) # ys"
      unfolding fp by (elim exE conjE) simp
    have "get_nav_on_date NAV_DATA_MAP scheme_code investment_date
          = Inr (NavPoint (nav entry) (date entry) False)"
      unfolding unfold None s using nb
      by (simp only: if_False option.case list.case fst_conv snd_conv)
    then show ?thesis unfolding k .
  qed
  with e show ?thesis by (intro exI conjI)
qed

section \<open>Facts about the example data\<close>

lemmas date_eval =
  parse_date_def py_int_def strip_def is_space_def py_nat_def digit_val_def mk_datetime_def
  valid_date_def days_in_month_def is_leap_def DAYS_IN_MONTH_def

lemma mem_nonempty:
  "x \<in> set xs \<Longrightarrow> xs \<noteq> []"
  by auto

lemma Max_between:
  fixes D :: "'d::linorder set"
  assumes "finite D" "d1 \<in> D" "d1 < t" "t < d2" "\<forall>x\<in>D. x \<le> d1 \<or> d2 \<le> x"
  shows "Max {x \<in> D. x \<le> t} = d1" "d1 \<noteq> t"
proof -
  have "d1 \<in> {x \<in> D. x \<le> t}" using assms(2,3) by simp
  moreover have "\<And>y. y \<in> {x \<in> D. x \<le> t} \<Longrightarrow> y \<le> d1"
    using assms(4,5) by force
  moreover have "finite {x \<in> D. x \<le> t}" using assms(1) by simp
  ultimately show "Max {x \<in> D. x \<le> t} = d1" by (intro Max_eqI)
  show "d1 \<noteq> t" using assms(3) by simp
qed

lemma scheme_x_dates:
  "parse_dates (data scheme_x)
     = Inr [(2020, 1, 1, 0, 0, 0, 0), (2023, 1, 1, 0, 0, 0, 0),
            (2023, 6, 1, 0, 0, 0, 0), (2024, 1, 1, 0, 0, 0, 0)]"
  by (simp add: scheme_x_def date_eval)

lemma scheme_y_dates:
  "parse_dates (data scheme_y) = Inr [(2023, 6, 1, 0, 0, 0, 0), (2024, 1, 1, 0, 0, 0, 0)]"
  by (simp add: scheme_y_def date_eval)

lemma scheme_z_dates:
  "parse_dates (data scheme_z) = Inr [(2023, 3, 1, 0, 0, 0, 0), (2024, 1, 1, 0, 0, 0, 0)]"
  by (simp add: scheme_z_def date_eval)

section \<open>Properties of the resolver\<close>

text \<open>
  Claim C2. Take a scheme of the store with a non-empty series whose dates all parse, and
  a target date on or after its first observation date. The resolver returns the first
  entry of the series that carries the latest observation date up to the target, with
  the entry's stored NAV and date text; \<open>exact_match\<close> is true exactly when that date is
  the target itself, which is the case when some observation is dated on the target.
  A target strictly between two consecutive observation dates resolves to the entry of
  the earlier one, with \<open>exact_match\<close> false, whatever the target in that gap.
\<close>

theorem get_nav_on_date_exact_or_prior:
  assumes "NAV_DATA_MAP scheme_code = Some nav_scheme"
    and "parse_dates (data nav_scheme) = Inr dates"
    and "data nav_scheme \<noteq> []"
    and "parse_date investment_date = Inr target"
    and "Min (set dates) \<le> target"
  shows "(\<exists>entry. find (\<lambda>e. parse_date (date e) = Inr (Max {x \<in> set dates. x \<le> target}))
                     (data nav_scheme) = Some entry
                 \<and> get_nav_on_date NAV_DATA_MAP scheme_code investment_date
                     = Inr (NavPoint (nav entry) (date entry)
                              (Max {x \<in> set dates. x \<le> target} = target)))
       \<and> (target \<in> set dates \<longrightarrow> Max {x \<in> set dates. x \<le> target} = target)
       \<and> (\<forall>d1 d2. d1 \<in> set dates \<and> d2 \<in> set dates \<and> d1 < target \<and> target < d2
              \<and> (\<forall>x\<in>set dates. x \<le> d1 \<or> d2 \<le> x)
            \<longrightarrow> (\<exists>entry. find (\<lambda>e. parse_date (date e) = Inr d1) (data nav_scheme) = Some entry
                   \<and> get_nav_on_date NAV_DATA_MAP scheme_code investment_date
                       = Inr (NavPoint (nav entry) (date entry) False)))"
proof (intro conjI allI impI)
  note nearest = get_nav_on_date_nearest [where NAV_DATA_MAP = NAV_DATA_MAP
      and scheme_code = scheme_code, OF assms]
  show "\<exists>entry. find (\<lambda>e. parse_date (date e) = Inr (Max {x \<in> set dates. x \<le> target}))
                     (data nav_scheme) = Some entry
                 \<and> get_nav_on_date NAV_DATA_MAP scheme_code investment_date
                     = Inr (NavPoint (nav entry) (date entry)
                              (Max {x \<in> set dates. x \<le> target} = target))"
    by (rule nearest)
  show "Max {x \<in> set dates. x \<le> target} = target" if "target \<in> set dates"
  proof (rule Max_eqI)
    show "finite {x \<in> set dates. x \<le> target}" by simp
    show "target \<in> {x \<in> set dates. x \<le> target}" using that by simp
    show "\<And>y. y \<in> {x \<in> set dates. x \<le> target} \<Longrightarrow> y \<le> target" by simp
  qed
  fix d1 d2
  assume h: "d1 \<in> set dates \<and> d2 \<in> set dates \<and> d1 < target \<and> target < d2
              \<and> (\<forall>x\<in>set dates. x \<le> d1 \<or> d2 \<le> x)"
  have fin: "finite (set dates)" by simp
  from h have a: "d1 \<in> set dates" and b: "d1 < target" and c: "target < d2"
    and d: "\<forall>x\<in>set dates. x \<le> d1 \<or> d2 \<le> x" by simp_all
  have k: "Max {x \<in> set dates. x \<le> target} = d1" by (rule Max_between(1) [OF fin a b c d])
  have ne: "(d1 = target) = False" using Max_between(2) [OF fin a b c d] by simp
  show "\<exists>entry. find (\<lambda>e. parse_date (date e) = Inr d1) (data nav_scheme) = Some entry
                   \<and> get_nav_on_date NAV_DATA_MAP scheme_code investment_date
                       = Inr (NavPoint (nav entry) (date entry) False)"
    using nearest unfolding k ne .
qed

theorem get_nav_on_date_exact_or_prior_witness:
  "example_store 1 = Some scheme_x
   \<and> data scheme_x \<noteq> []
   \<and> parse_date ''02-08-2023'' = Inr (2023, 8, 2, 0, 0, 0, 0)
   \<and> get_nav_on_date example_store 1 ''02-08-2023'' = Inr (NavPoint 12 ''01-06-2023'' False)
   \<and> get_nav_on_date example_store 1 ''15-09-2023'' = Inr (NavPoint 12 ''01-06-2023'' False)
   \<and> get_nav_on_date example_store 1 ''01-06-2023'' = Inr (NavPoint 12 ''01-06-2023'' True)"
proof -
  let ?dates = "[(2020, 1, 1, 0, 0, 0, 0), (2023, 1, 1, 0, 0, 0, 0),
                 (2023, 6, 1, 0, 0, 0, 0), (2024, 1, 1, 0, 0, 0, 0)] :: datetime list"
  have s: "example_store 1 = Some scheme_x" by (simp add: example_store_def)
  have n: "data scheme_x \<noteq> []" by (simp add: scheme_x_def)
  have t: "parse_date ''02-08-2023'' = Inr (2023, 8, 2, 0, 0, 0, 0)" by (simp add: date_eval)
  have m: "Min (set ?dates) \<le> (2023, 8, 2, 0, 0, 0, 0)" by simp
  have r1: "get_nav_on_date example_store 1 ''02-08-2023'' = Inr (NavPoint 12 ''01-06-2023'' False)"
    by code_simp
  have r2: "get_nav_on_date example_store 1 ''15-09-2023'' = Inr (NavPoint 12 ''01-06-2023'' False)"
    by code_simp
  have r3: "get_nav_on_date example_store 1 ''01-06-2023'' = Inr (NavPoint 12 ''01-06-2023'' True)"
    by code_simp
  from get_nav_on_date_exact_or_prior [where NAV_DATA_MAP = example_store and scheme_code = 1,
      OF s scheme_x_dates n t m]
  show ?thesis using s n t r1 r2 r3 by simp
qed

text \<open>
  Claim C3. A target date strictly before the first observation date of a scheme (with a
  non-empty series whose dates parse) makes the resolver return the
  \<^verbatim>\<open>BEFORE_FUND_START\<close> dictionary, whose \<open>fund_start_date\<close> is the text of that first
  date and parses back to it. A scheme code absent from the store, or a scheme with an
  empty series, makes it return \<^verbatim>\<open>None\<close>.
\<close>

theorem get_nav_on_date_before_start:
  "(NAV_DATA_MAP scheme_code = None
      \<longrightarrow> get_nav_on_date NAV_DATA_MAP scheme_code investment_date = Inr NotFound)
   \<and> (NAV_DATA_MAP scheme_code = Some nav_scheme \<and> data nav_scheme = []
        \<and> parse_date investment_date = Inr target
      \<longrightarrow> get_nav_on_date NAV_DATA_MAP scheme_code investment_date = Inr NotFound)
   \<and> (NAV_DATA_MAP scheme_code = Some nav_scheme \<and> data nav_scheme \<noteq> []
        \<and> parse_dates (data nav_scheme) = Inr dates
        \<and> parse_date investment_date = Inr target \<and> target < Min (set dates)
      \<longrightarrow> get_nav_on_date NAV_DATA_MAP scheme_code investment_date
            = Inr (BeforeFundStart (format_date (Min (set dates)))
                     (before_start_message (Min (set dates))))
          \<and> parse_date (format_date (Min (set dates))) = Inr (Min (set dates)))"
proof (intro conjI impI)
  assume "NAV_DATA_MAP scheme_code = None"
  then show "get_nav_on_date NAV_DATA_MAP scheme_code investment_date = Inr NotFound"
    by (simp add: get_nav_on_date_def)
next
  assume "NAV_DATA_MAP scheme_code = Some nav_scheme \<and> data nav_scheme = []
          \<and> parse_date investment_date = Inr target"
  then show "get_nav_on_date NAV_DATA_MAP scheme_code investment_date = Inr NotFound"
    by (simp add: get_nav_on_date_def)
next
  assume h: "NAV_DATA_MAP scheme_code = Some nav_scheme \<and> data nav_scheme \<noteq> []
        \<and> parse_dates (data nav_scheme) = Inr dates
        \<and> parse_date investment_date = Inr target \<and> target < Min (set dates)"
  then have a: "NAV_DATA_MAP scheme_code = Some nav_scheme" and b: "data nav_scheme \<noteq> []"
    and c: "parse_dates (data nav_scheme) = Inr dates"
    and d: "parse_date investment_date = Inr target" and e: "target < Min (set dates)"
    by simp_all
  show "get_nav_on_date NAV_DATA_MAP scheme_code investment_date
            = Inr (BeforeFundStart (format_date (Min (set dates)))
                     (before_start_message (Min (set dates))))"
    unfolding get_nav_on_date_parsed [where NAV_DATA_MAP = NAV_DATA_MAP
        and scheme_code = scheme_code, OF a c b d]
    using e by (simp only: if_True)
next
  assume h: "NAV_DATA_MAP scheme_code = Some nav_scheme \<and> data nav_scheme \<noteq> []
        \<and> parse_dates (data nav_scheme) = Inr dates
        \<and> parse_date investment_date = Inr target \<and> target < Min (set dates)"
  then have b: "data nav_scheme \<noteq> []" and c: "parse_dates (data nav_scheme) = Inr dates"
    by simp_all
  have "Min (set dates) \<in> set dates" by (rule Min_date_zipped(1) [OF c b])
  then obtain e :: nav_entry where "parse_date (date e) = Inr (Min (set dates))"
    using parse_dates_set [OF c] by blast
  then obtain y m d where v: "Min (set dates) = (y, m, d, 0, 0, 0, 0)" "valid_date y m d"
    using parse_date_valid by blast
  show "parse_date (format_date (Min (set dates))) = Inr (Min (set dates))"
    unfolding v(1) by (rule parse_format_date [OF v(2)])
qed

theorem get_nav_on_date_before_start_witness:
  "example_store 9 = None
   \<and> get_nav_on_date example_store 9 ''01-01-2023'' = Inr NotFound
   \<and> example_store 4 = Some scheme_empty \<and> data scheme_empty = []
   \<and> get_nav_on_date example_store 4 ''01-01-2023'' = Inr NotFound
   \<and> example_store 2 = Some scheme_y \<and> data scheme_y \<noteq> []
   \<and> parse_date ''01-01-2023'' = Inr (2023, 1, 1, 0, 0, 0, 0)
   \<and> get_nav_on_date example_store 2 ''01-01-2023''
       = Inr (BeforeFundStart ''01-06-2023''
                ''Fund started on 01-06-2023, which is after the investment date'')"
proof -
  let ?dates = "[(2023, 6, 1, 0, 0, 0, 0), (2024, 1, 1, 0, 0, 0, 0)] :: datetime list"
  have s9: "example_store 9 = None" by (simp add: example_store_def)
  have s4: "example_store 4 = Some scheme_empty \<and> data scheme_empty = []"
    by (simp add: example_store_def scheme_empty_def)
  have s2: "example_store 2 = Some scheme_y \<and> data scheme_y \<noteq> []"
    by (simp add: example_store_def scheme_y_def)
  have t: "parse_date ''01-01-2023'' = Inr (2023, 1, 1, 0, 0, 0, 0)" by (simp add: date_eval)
  have m: "(2023, 1, 1, 0, 0, 0, 0) < Min (set ?dates)" by simp
  have mv: "Min (set ?dates) = (2023, 6, 1, 0, 0, 0, 0)" by simp
  have f: "format_date (2023, 6, 1, 0, 0, 0, 0) = ''01-06-2023''"
    by (simp add: format_date_def pad2_def pad4_def digit_char_def day_of_def month_of_def
        year_of_def)
  have g: "before_start_message (2023, 6, 1, 0, 0, 0, 0)
           = ''Fund started on 01-06-2023, which is after the investment date''"
    by (simp add: before_start_message_def f)
  note thm9 = get_nav_on_date_before_start [where NAV_DATA_MAP = example_store
      and scheme_code = 9 and investment_date = "''01-01-2023''"]
  note thm4 = get_nav_on_date_before_start [where NAV_DATA_MAP = example_store
      and scheme_code = 4 and investment_date = "''01-01-2023''" and nav_scheme = scheme_empty
      and target = "(2023, 1, 1, 0, 0, 0, 0)"]
  note thm2 = get_nav_on_date_before_start [where NAV_DATA_MAP = example_store
      and scheme_code = 2 and investment_date = "''01-01-2023''" and nav_scheme = scheme_y
      and target = "(2023, 1, 1, 0, 0, 0, 0)" and dates = ?dates]
  have r9: "get_nav_on_date example_store 9 ''01-01-2023'' = Inr NotFound"
    using thm9 s9 by blast
  have r4: "get_nav_on_date example_store 4 ''01-01-2023'' = Inr NotFound"
    using thm4 s4 t by blast
  have "get_nav_on_date example_store 2 ''01-01-2023''
          = Inr (BeforeFundStart (format_date (Min (set ?dates)))
                   (before_start_message (Min (set ?dates))))"
    using thm2 s2 scheme_y_dates t m by blast
  then have r2: "get_nav_on_date example_store 2 ''01-01-2023''
       = Inr (BeforeFundStart ''01-06-2023''
                ''Fund started on 01-06-2023, which is after the investment date'')"
    unfolding mv f g .
  show ?thesis using s9 r9 s4 r4 s2 t r2 by simp
qed

text \<open>
  Claim C8. For a scheme of the store with a non-empty series whose dates parse and a
  target date on or after its first observation date, the list of observations dated
  up to the target is not empty and the resolver returns a NAV point: the last
  \<^verbatim>\<open>return None\<close> of the function is not reached.
\<close>

theorem get_nav_on_date_final_none_unreachable:
  assumes "NAV_DATA_MAP scheme_code = Some nav_scheme"
    and "parse_dates (data nav_scheme) = Inr dates"
    and "data nav_scheme \<noteq> []"
    and "parse_date investment_date = Inr target"
    and "Min (set dates) \<le> target"
  shows "(\<exists>ps. previous_navs (data nav_scheme) target = Inr ps \<and> ps \<noteq> [])
       \<and> (\<exists>n d x. get_nav_on_date NAV_DATA_MAP scheme_code investment_date = Inr (NavPoint n d x))
       \<and> get_nav_on_date NAV_DATA_MAP scheme_code investment_date \<noteq> Inr NotFound"
proof -
  let ?Z = "zip (data nav_scheme) dates"
  obtain p0 where p0: "p0 \<in> set ?Z" "snd p0 = Min (set dates)"
    using Min_date_zipped(2) [OF assms(2,3)] ..
  have "snd p0 \<le> target" using p0(2) assms(5) by simp
  then have "p0 \<in> set (filter (\<lambda>p. snd p \<le> target) ?Z)" using p0(1) by simp
  then have "filter (\<lambda>p. snd p \<le> target) ?Z \<noteq> []" by (rule mem_nonempty)
  then have 1: "\<exists>ps. previous_navs (data nav_scheme) target = Inr ps \<and> ps \<noteq> []"
    unfolding previous_navs_parsed [OF assms(2)] by simp
  obtain entry :: nav_entry where r: "get_nav_on_date NAV_DATA_MAP scheme_code investment_date
      = Inr (NavPoint (nav entry) (date entry) (Max {x \<in> set dates. x \<le> target} = target))"
    using get_nav_on_date_nearest [where NAV_DATA_MAP = NAV_DATA_MAP
      and scheme_code = scheme_code, OF assms] by (elim exE conjE)
  have 2: "\<exists>n d x. get_nav_on_date NAV_DATA_MAP scheme_code investment_date = Inr (NavPoint n d x)"
    unfolding r by (intro exI) (rule refl)
  have 3: "get_nav_on_date NAV_DATA_MAP scheme_code investment_date \<noteq> Inr NotFound"
    unfolding r by simp
  from 1 2 3 show ?thesis by (intro conjI)
qed

theorem get_nav_on_date_final_none_unreachable_witness:
  "example_store 3 = Some scheme_z
   \<and> data scheme_z \<noteq> []
   \<and> parse_date ''31-12-2030'' = Inr (2030, 12, 31, 0, 0, 0, 0)
   \<and> (\<exists>n d x. get_nav_on_date example_store 3 ''31-12-2030'' = Inr (NavPoint n d x))
   \<and> get_nav_on_date example_store 3 ''31-12-2030'' \<noteq> Inr NotFound"
proof -
  let ?dates = "[(2023, 3, 1, 0, 0, 0, 0), (2024, 1, 1, 0, 0, 0, 0)] :: datetime list"
  have s: "example_store 3 = Some scheme_z" by (simp add: example_store_def)
  have n: "data scheme_z \<noteq> []" by (simp add: scheme_z_def)
  have t: "parse_date ''31-12-2030'' = Inr (2030, 12, 31, 0, 0, 0, 0)" by (simp add: date_eval)
  have m: "Min (set ?dates) \<le> (2030, 12, 31, 0, 0, 0, 0)" by simp
  from get_nav_on_date_final_none_unreachable [where NAV_DATA_MAP = example_store
      and scheme_code = 3, OF s scheme_z_dates n t m]
  show ?thesis using s n t by simp
qed

section \<open>The return calculator case by case\<close>

lemma find_SomeD:
  "find P xs = Some x \<Longrightarrow> P x"
  by (induction xs) (auto split: if_splits)

lemma get_current_nav_parsed:
  assumes "NAV_DATA_MAP scheme_code = Some nav_scheme"
    and "parse_dates (data nav_scheme) = Inr dates"
    and "data nav_scheme \<noteq> []"
  shows "\<exists>entry. find (\<lambda>e. parse_date (date e) = Inr (Max (set dates))) (data nav_scheme) = Some entry
               \<and> get_current_nav NAV_DATA_MAP scheme_code = Inr (Some (nav entry, date entry))"
proof -
  let ?es = "data nav_scheme"
  let ?Z = "zip ?es dates"
  let ?K = "Max (set dates)"
  have len: "length ?es = length dates" using parse_dates_length [OF assms(2)] by simp
  have img: "snd ` set ?Z = set dates" by (rule zip_snd_set [OF len])
  have "?Z \<noteq> []" using assms(3) len by (cases ?es; cases dates) simp_all
  then have "py_sorted_reverse snd ?Z \<noteq> []" by (simp add: py_sorted_reverse_Nil)
  then obtain y ys where s: "py_sorted_reverse snd ?Z = y # ys"
    by (cases "py_sorted_reverse snd ?Z") simp_all
  have "find (\<lambda>p. snd p = ?K) ?Z = Some y"
    using py_sorted_reverse_head(2) [OF s] unfolding img .
  then have "map_option (\<lambda>e. (e, ?K)) (find (\<lambda>e. parse_date (date e) = Inr ?K) ?es) = Some y"
    unfolding find_zip_date [OF assms(2), of ?K] .
  then obtain entry where e: "find (\<lambda>e. parse_date (date e) = Inr ?K) ?es = Some entry"
    and ye: "y = (entry, ?K)"
    by (cases "find (\<lambda>e. parse_date (date e) = Inr ?K) ?es") simp_all
  have fy: "fst y = entry" unfolding ye by (rule fst_conv)
  have "get_current_nav NAV_DATA_MAP scheme_code = Inr (Some (nav entry, date entry))"
    unfolding get_current_nav_def
    by (simp add: assms(1,3) with_date_keys_parsed [OF assms(2)] s fy)
  with e show ?thesis by (intro exI conjI)
qed

lemma get_current_nav_cases:
  "get_current_nav NAV_DATA_MAP scheme_code = Inl e \<Longrightarrow> e = ValueError"
proof (cases "NAV_DATA_MAP scheme_code")
  case None
  assume "get_current_nav NAV_DATA_MAP scheme_code = Inl e"
  then show ?thesis using None by (simp add: get_current_nav_def)
next
  case (Some sch)
  assume a: "get_current_nav NAV_DATA_MAP scheme_code = Inl e"
  show ?thesis
  proof (cases "parse_dates (data sch)")
    case (Inl x)
    have "\<And>ds. with_date_keys (data sch) = Inr ds \<Longrightarrow> False"
    proof -
      fix ds assume w: "with_date_keys (data sch) = Inr ds"
      have "\<And>es ks. with_date_keys es = Inr ks \<Longrightarrow> \<exists>ds. parse_dates es = Inr ds"
      proof -
        fix es :: "nav_entry list" and ks
        show "with_date_keys es = Inr ks \<Longrightarrow> \<exists>ds. parse_dates es = Inr ds"
          by (induction es arbitrary: ks) (auto split: sum.splits)
      qed
      from this [OF w] show False using Inl by simp
    qed
    then obtain x' where w: "with_date_keys (data sch) = Inl x'"
      by (cases "with_date_keys (data sch)") auto
    have "\<And>es. with_date_keys es = Inl x' \<Longrightarrow> x' = ValueError"
    proof -
      fix es :: "nav_entry list"
      show "with_date_keys es = Inl x' \<Longrightarrow> x' = ValueError"
        by (induction es) (auto split: sum.splits dest: parse_date_error)
    qed
    from this [OF w] have "x' = ValueError" .
    then show ?thesis using a Some w by (simp add: get_current_nav_def split: if_splits)
  next
    case (Inr ds)
    show ?thesis
    proof (cases "data sch = []")
      case True
      then show ?thesis using a Some by (simp add: get_current_nav_def)
    next
      case False
      from get_current_nav_parsed [where NAV_DATA_MAP = NAV_DATA_MAP
          and scheme_code = scheme_code, OF Some Inr False]
      show ?thesis using a by auto
    qed
  qed
qed

lemma get_nav_on_date_error:
  "get_nav_on_date NAV_DATA_MAP scheme_code investment_date = Inl e \<Longrightarrow> e = ValueError"
proof -
  assume a: "get_nav_on_date NAV_DATA_MAP scheme_code investment_date = Inl e"
  show ?thesis
  proof (cases "NAV_DATA_MAP scheme_code")
    case None
    then show ?thesis using a by (simp add: get_nav_on_date_def)
  next
    case (Some sch)
    show ?thesis
    proof (cases "parse_date investment_date")
      case (Inl x)
      then show ?thesis using a Some parse_date_error [OF Inl] by (simp add: get_nav_on_date_def)
    next
      case t: (Inr target)
      show ?thesis
      proof (cases "parse_dates (data sch)")
        case (Inl x)
        then show ?thesis using a Some t parse_dates_error [OF Inl]
          by (simp add: get_nav_on_date_def)
      next
        case (Inr ds)
        show ?thesis
        proof (cases "data sch = []")
          case True
          then show ?thesis using a Some t by (simp add: get_nav_on_date_def)
        next
          case False
          note u = get_nav_on_date_parsed [where NAV_DATA_MAP = NAV_DATA_MAP
              and scheme_code = scheme_code, OF Some Inr False t]
          show ?thesis using a unfolding u
            by (simp split: if_splits option.splits list.splits)
        qed
      qed
    qed
  qed
qed

lemma calculate_returns_absent:
  assumes "NAV_DATA_MAP scheme_code = None"
  shows "calculate_returns NAV_DATA_MAP scheme_code amount investment_date
         = Inr (ErrorMessage (nav_not_available scheme_code investment_date))"
  using assms by (simp add: calculate_returns_def get_nav_on_date_def get_current_nav_def)

lemma calculate_returns_empty:
  assumes "NAV_DATA_MAP scheme_code = Some nav_scheme" "data nav_scheme = []"
    and "parse_date investment_date = Inr target"
  shows "calculate_returns NAV_DATA_MAP scheme_code amount investment_date
         = Inr (ErrorMessage (nav_not_available scheme_code investment_date))"
  using assms by (simp add: calculate_returns_def get_nav_on_date_def get_current_nav_def)

lemma calculate_returns_before_start:
  assumes "NAV_DATA_MAP scheme_code = Some nav_scheme"
    and "parse_dates (data nav_scheme) = Inr dates"
    and "data nav_scheme \<noteq> []"
    and "parse_date investment_date = Inr target"
    and "target < Min (set dates)"
  shows "calculate_returns NAV_DATA_MAP scheme_code amount investment_date
         = Inr (ErrorBeforeStart (format_date (Min (set dates)))
                  (before_start_message (Min (set dates))))"
proof -
  note u = get_nav_on_date_parsed [where NAV_DATA_MAP = NAV_DATA_MAP
      and scheme_code = scheme_code, OF assms(1-4)]
  obtain entry :: nav_entry where
    c: "get_current_nav NAV_DATA_MAP scheme_code = Inr (Some (nav entry, date entry))"
    using get_current_nav_parsed [where NAV_DATA_MAP = NAV_DATA_MAP
      and scheme_code = scheme_code, OF assms(1-3)] by (elim exE conjE)
  show ?thesis unfolding calculate_returns_def u c using assms(5) by simp
qed

lemma calculate_returns_resolved:
  assumes "NAV_DATA_MAP scheme_code = Some nav_scheme"
    and "parse_dates (data nav_scheme) = Inr dates"
    and "data nav_scheme \<noteq> []"
    and "parse_date investment_date = Inr target"
    and "Min (set dates) \<le> target"
  shows "\<exists>e1 e2.
           find (\<lambda>e. parse_date (date e) = Inr (Max {x \<in> set dates. x \<le> target}))
             (data nav_scheme) = Some e1
         \<and> find (\<lambda>e. parse_date (date e) = Inr (Max (set dates))) (data nav_scheme) = Some e2
         \<and> calculate_returns NAV_DATA_MAP scheme_code amount investment_date =
             (if nav e1 = 0 \<or> amount = 0 then Inl ZeroDivisionError
              else (case annualized (amount / nav e1 * nav e2) amount
                           (toordinal (Max (set dates)) - toordinal target) of
                      Inl x \<Rightarrow> Inl x
                    | Inr x \<Rightarrow>
                        Inr (Returns
                               (returns_dict scheme_code nav_scheme amount investment_date
                                  (nav e1) (date e1) (Max {x \<in> set dates. x \<le> target} = target)
                                  (nav e2) (date e2)
                                  (toordinal (Max (set dates)) - toordinal target) x))))"
proof -
  obtain e1 :: nav_entry where
    f1: "find (\<lambda>e. parse_date (date e) = Inr (Max {x \<in> set dates. x \<le> target}))
           (data nav_scheme) = Some e1"
    and p: "get_nav_on_date NAV_DATA_MAP scheme_code investment_date
            = Inr (NavPoint (nav e1) (date e1) (Max {x \<in> set dates. x \<le> target} = target))"
    using get_nav_on_date_nearest [where NAV_DATA_MAP = NAV_DATA_MAP
      and scheme_code = scheme_code, OF assms] by (elim exE conjE)
  obtain e2 :: nav_entry where
    f2: "find (\<lambda>e. parse_date (date e) = Inr (Max (set dates))) (data nav_scheme) = Some e2"
    and c: "get_current_nav NAV_DATA_MAP scheme_code = Inr (Some (nav e2, date e2))"
    using get_current_nav_parsed [where NAV_DATA_MAP = NAV_DATA_MAP
      and scheme_code = scheme_code, OF assms(1-3)] by (elim exE conjE)
  have d2: "parse_date (date e2) = Inr (Max (set dates))" using find_SomeD [OF f2] .
  have "calculate_returns NAV_DATA_MAP scheme_code amount investment_date =
             (if nav e1 = 0 \<or> amount = 0 then Inl ZeroDivisionError
              else (case annualized (amount / nav e1 * nav e2) amount
                           (toordinal (Max (set dates)) - toordinal target) of
                      Inl x \<Rightarrow> Inl x
                    | Inr x \<Rightarrow>
                        Inr (Returns
                               (returns_dict scheme_code nav_scheme amount investment_date
                                  (nav e1) (date e1) (Max {x \<in> set dates. x \<le> target} = target)
                                  (nav e2) (date e2)
                                  (toordinal (Max (set dates)) - toordinal target) x))))"
    unfolding calculate_returns_def p c
    by (simp add: assms(1,4) d2 Let_def split: sum.splits)
  with f1 f2 show ?thesis by (intro exI conjI)
qed

end
